theory Spec2Isabelle
  imports Main "HOL-Library.Multiset"
begin

section \<open>The run bootstrap of \<open>sae/__main__.py\<close>\<close>

text \<open>
  The module holds one dataclass, \<open>RunConfig\<close>, and one function, \<open>run\<close>. The function
  reads the process environment, calls a fixed sequence of collaborators (torch, the
  argument parser, the model and dataset loaders, the tokeniser, the trainer) and prints
  three status lines. The collaborators are parameters of the model (the record
  \<open>world\<close>): each call of \<open>run\<close> is recorded in a trace together with the arguments
  \<open>run\<close> passes, and its outcome is whatever the world answers. Exceptions are values
  of the type \<open>error\<close>; the interpreter's \<open>sys.stdout\<close> and the text that reached the
  console are fields of the state.
\<close>

subsection \<open>Exceptions\<close>

datatype error =
    ValueError
  | IndexError
  | SystemExit nat
  | Raised string

subsection \<open>Python's \<open>int(str)\<close> and \<open>str(int)\<close>\<close>

text \<open>
  \<open>int(s)\<close> in base ten: white space is skipped on both sides, one sign may precede
  the digits, and single underscores may separate digits. Everything else raises
  ValueError (here \<open>None\<close>), and so does a text of more digits than the interpreter
  converts (\<open>sys.int_max_str_digits\<close>, 4300 unless the launch changes it; leading zeros
  count, underscores do not). A \<open>char\<close> is a code point below 256: the white space
  among them is tab to carriage return, the space, U+0085 and U+00A0; the only decimal
  digits are \<open>0\<close> to \<open>9\<close>.
\<close>

definition py_isspace :: "char \<Rightarrow> bool" where
  "py_isspace c =
     (let n = (of_char c :: nat) in n = 32 \<or> (9 \<le> n \<and> n \<le> 13) \<or> n = 133 \<or> n = 160)"

definition int_max_str_digits :: nat where
  "int_max_str_digits = 4300"

definition py_isdigit :: "char \<Rightarrow> bool" where
  "py_isdigit c = (let n = (of_char c :: nat) in 48 \<le> n \<and> n \<le> 57)"

definition digit_val :: "char \<Rightarrow> nat" where
  "digit_val c = of_char c - 48"

definition digit_or_underscore :: "char \<Rightarrow> bool" where
  "digit_or_underscore c = (py_isdigit c \<or> c = CHR ''_'')"

text \<open>The digits are accumulated from the left, most significant first.\<close>

definition horner :: "string \<Rightarrow> nat" where
  "horner ds = foldl (\<lambda>a c. 10 * a + digit_val c) 0 ds"

text \<open>An underscore is refused at the start, at the end and after another underscore.\<close>

fun underscores_ok :: "string \<Rightarrow> bool" where
  "underscores_ok [] = True"
| "underscores_ok [c] = (c \<noteq> CHR ''_'')"
| "underscores_ok (c # d # cs) =
     (\<not> (c = CHR ''_'' \<and> d = CHR ''_'') \<and> underscores_ok (d # cs))"

definition split_sign :: "string \<Rightarrow> bool \<times> string" where
  "split_sign t =
     (case t of
        [] \<Rightarrow> (False, [])
      | c # r \<Rightarrow>
          if c = CHR ''-'' then (True, r)
          else if c = CHR ''+'' then (False, r)
          else (False, t))"

definition py_int :: "string \<Rightarrow> int option" where
  "py_int s =
     (let t = dropWhile py_isspace s;
          (neg, u) = split_sign t;
          body = takeWhile digit_or_underscore u;
          rest = dropWhile digit_or_underscore u
      in if body = [] \<or> hd body = CHR ''_'' \<or> \<not> underscores_ok body
            \<or> dropWhile py_isspace rest \<noteq> []
            \<or> int_max_str_digits < length (filter py_isdigit body)
         then None
         else Some ((if neg then - 1 else 1) * int (horner (filter py_isdigit body))))"

text \<open>\<open>str(n)\<close>, as the f-strings of \<open>run\<close> format an integer.\<close>

fun str_nat :: "nat \<Rightarrow> string" where
  "str_nat n =
     (if n < 10 then [char_of (48 + n)]
      else str_nat (n div 10) @ [char_of (48 + n mod 10)])"

declare str_nat.simps [simp del]

definition str_int :: "int \<Rightarrow> string" where
  "str_int i = (if i < 0 then CHR ''-'' # str_nat (nat (- i)) else str_nat (nat i))"

text \<open>
  The value a string of decimal digits denotes, position by position: the reference the
  parser is compared with.
\<close>

definition decimal_value :: "string \<Rightarrow> nat" where
  "decimal_value s = (\<Sum>i < length s. digit_val (s ! i) * 10 ^ (length s - 1 - i))"

definition digit_string :: "string \<Rightarrow> bool" where
  "digit_string s = (s \<noteq> [] \<and> list_all py_isdigit s)"

text \<open>
  The texts that denote an integer: white space, an optional sign, groups of digits with
  one underscore between neighbours, white space; at most \<open>int_max_str_digits\<close> digits in
  all. The value is that of the digits, negated after a minus sign.
\<close>

fun join_groups :: "string list \<Rightarrow> string" where
  "join_groups [] = []"
| "join_groups [g] = g"
| "join_groups (g # h # gs) = g @ CHR ''_'' # join_groups (h # gs)"

definition int_literal :: "string \<Rightarrow> string \<Rightarrow> string list \<Rightarrow> string \<Rightarrow> string" where
  "int_literal ws1 sign groups ws2 = ws1 @ sign @ join_groups groups @ ws2"

definition literal_ok :: "string \<Rightarrow> string \<Rightarrow> string list \<Rightarrow> string \<Rightarrow> bool" where
  "literal_ok ws1 sign groups ws2 =
     (list_all py_isspace ws1 \<and> list_all py_isspace ws2
      \<and> (sign = [] \<or> sign = ''+'' \<or> sign = ''-'')
      \<and> groups \<noteq> [] \<and> list_all digit_string groups
      \<and> length (concat groups) \<le> int_max_str_digits)"

definition literal_value :: "string \<Rightarrow> string list \<Rightarrow> int" where
  "literal_value sign groups =
     (if sign = ''-'' then - int (decimal_value (concat groups))
      else int (decimal_value (concat groups)))"

subsection \<open>Lines 37 to 39: the launch topology\<close>

text \<open>
  \<open>local_rank = os.environ.get("LOCAL_RANK")\<close>, \<open>ddp = local_rank is not None\<close>,
  \<open>rank = int(local_rank) if ddp else 0\<close>. The result is the pair \<open>(ddp, rank)\<close>.
\<close>

definition topology :: "string option \<Rightarrow> error + bool \<times> int" where
  "topology local_rank =
     (case local_rank of
        None \<Rightarrow> Inr (False, 0)
      | Some s \<Rightarrow> (case py_int s of None \<Rightarrow> Inl ValueError | Some r \<Rightarrow> Inr (True, r)))"

subsection \<open>Lines 49 to 54: the dtype requested from the model loader\<close>

datatype torch_dtype = Float16 | BFloat16 | Float32

datatype dtype_arg = Dtype torch_dtype | Auto

definition select_dtype :: "bool \<Rightarrow> bool \<Rightarrow> dtype_arg" where
  "select_dtype load_in_8bit bf16_supported =
     (if load_in_8bit then Dtype Float16
      else if bf16_supported then Dtype BFloat16
      else Auto)"

subsection \<open>The configuration: \<open>RunConfig(TrainConfig)\<close> and \<open>parse(RunConfig)\<close>\<close>

text \<open>
  Modelled from the spec: \<open>TrainConfig\<close> is declared in \<open>sae/trainer.py\<close>, which is not
  among the sources. Section 3 says the base configuration "includes at least a
  quantization flag and a credential token"; these are the two inherited fields \<open>run\<close>
  reads (\<open>args.load_in_8bit\<close>, \<open>args.hf_token\<close>).
\<close>

record TrainConfig =
  load_in_8bit :: bool
  hf_token :: "string option"

record RunConfig = TrainConfig +
  model :: string
  dataset :: string
  split :: string
  ctx_len :: int

text \<open>
  What the command line supplies: for each field declared in \<open>RunConfig\<close> the raw
  text of its argument, if one was given, and the outcome of resolving the inherited
  fields.
\<close>

record cmdline =
  arg_base :: "error + TrainConfig"
  arg_model :: "string option"
  arg_dataset :: "string option"
  arg_split :: "string option"
  arg_ctx_len :: "string option"

text \<open>
  \<open>parse(RunConfig)\<close> overlays the supplied values on the declared defaults. A field
  declared \<open>str\<close> takes the text as it is; \<open>ctx_len: int = 2048\<close> is converted by
  \<open>int\<close>, and a text \<open>int\<close> refuses ends the process (the parser's exit status 2).
  The declaration gives no validator and the class has no \<open>__post_init__\<close>.
\<close>

definition parse :: "cmdline \<Rightarrow> error + RunConfig" where
  "parse a =
     (case arg_base a of
        Inl e \<Rightarrow> Inl e
      | Inr b \<Rightarrow>
          (case (case arg_ctx_len a of None \<Rightarrow> Some 2048 | Some v \<Rightarrow> py_int v) of
             None \<Rightarrow> Inl (SystemExit 2)
           | Some n \<Rightarrow>
               Inr \<lparr>load_in_8bit = load_in_8bit b,
                    hf_token = hf_token b,
                    model = (case arg_model a of None \<Rightarrow> ''EleutherAI/pythia-160m'' | Some v \<Rightarrow> v),
                    dataset =
                      (case arg_dataset a of
                         None \<Rightarrow> ''togethercomputer/RedPajama-Data-1T-Sample''
                       | Some v \<Rightarrow> v),
                    split = (case arg_split a of None \<Rightarrow> ''train'' | Some v \<Rightarrow> v),
                    ctx_len = n\<rparr>))"

subsection \<open>The collaborators and what \<open>run\<close> passes to them\<close>

record model_request =
  pretrained_name :: string
  attn_implementation :: string
  device_map :: string
  quantization_8bit :: bool
  torch_dtype :: dtype_arg
  token :: "string option"

record dataset_request =
  path :: string
  split_name :: string
  trust_remote_code :: bool

text \<open>The loaded model, as far as \<open>run\<close> looks at it: \<open>model.dtype\<close>.\<close>

record model_handle =
  loaded_from :: string
  dtype :: torch_dtype

datatype tokenizer = Tokenizer string

datatype event =
    SetDevice int
  | InitProcessGroup string
  | Parse
  | FromPretrained model_request
  | LoadDataset dataset_request
  | TokenizerFromPretrained string
  | ChunkAndTokenize int
  | Shard nat int
  | NewSaeTrainer RunConfig "nat list list" model_handle
  | Fit

text \<open>
  The world a process runs in. A raw dataset is a list of texts, a tokenized dataset a
  list of token-id sequences. The trainer's constructor and its \<open>fit\<close> answer with the
  lines they print and the exception they raise, if any. \<open>shard_contiguous\<close> is the
  default of the \<open>contiguous\<close> parameter of the dataset's \<open>shard\<close> method, which the
  call at line 76 does not pass.
\<close>

record world =
  environ :: "string \<rightharpoonup> string"
  argv :: cmdline
  cuda_set_device :: "int \<Rightarrow> error option"
  init_process_group :: "string \<Rightarrow> error option"
  get_world_size :: nat
  is_bf16_supported :: bool
  from_pretrained :: "model_request \<Rightarrow> error + model_handle"
  load_dataset :: "dataset_request \<Rightarrow> error + string list"
  tokenizer_from_pretrained :: "string \<Rightarrow> error + tokenizer"
  chunk_and_tokenize :: "string list \<Rightarrow> tokenizer \<Rightarrow> int \<Rightarrow> error + nat list list"
  shard_contiguous :: bool
  new_trainer :: "RunConfig \<Rightarrow> nat list list \<Rightarrow> model_handle \<Rightarrow> string list \<times> error option"
  fit :: "RunConfig \<Rightarrow> nat list list \<Rightarrow> model_handle \<Rightarrow> string list \<times> error option"

subsection \<open>The dataset's \<open>shard(num_shards, index)\<close>\<close>

text \<open>
  Modelled from the spec: \<open>shard\<close> is a method of the object \<open>chunk_and_tokenize\<close>
  returns, and neither \<open>sae/data.py\<close> nor the dataset class is among the sources.
  Section 4.6 says the tokenized dataset is partitioned "into world_size shards using a
  deterministic, index-based striping or contiguous-split scheme", retaining "only the
  shard matching rank". Both schemes are modelled, as the datasets library computes
  them: striping selects \<open>arange(index, len, num_shards)\<close>; the contiguous split selects
  \<open>range(start, stop)\<close>, the first \<open>len mod num_shards\<close> shards one element longer than
  the others. An index outside \<open>0 .. num_shards - 1\<close> raises ValueError. The selection
  returns an empty dataset as it is and otherwise checks its positions against the size
  of the dataset: a range that starts at or beyond the size, or ends beyond it, raises
  IndexError, and so does an array with a position at or beyond the size.
\<close>

definition arange :: "nat \<Rightarrow> nat \<Rightarrow> nat \<Rightarrow> nat list" where
  "arange start stop step =
     map (\<lambda>k. start + k * step) [0..<(stop - start + step - 1) div step]"

text \<open>The positions a shard selects when \<open>shard\<close> returns; used to state its properties.\<close>

definition shard_indices :: "bool \<Rightarrow> nat \<Rightarrow> nat \<Rightarrow> nat \<Rightarrow> nat list" where
  "shard_indices contiguous n num_shards index =
     (if contiguous then
        (let d = n div num_shards;
             m = n mod num_shards;
             start = d * index + min index m;
             stop = start + d + (if index < m then 1 else 0)
         in [start..<stop])
      else arange index n num_shards)"

definition select_range :: "nat \<Rightarrow> nat \<Rightarrow> 'a list \<Rightarrow> error + 'a list" where
  "select_range start stop xs =
     (if xs = [] then Inr []
      else if length xs \<le> start \<or> length xs < stop then Inl IndexError
      else Inr (map (\<lambda>i. xs ! i) [start..<stop]))"

definition select_array :: "nat list \<Rightarrow> 'a list \<Rightarrow> error + 'a list" where
  "select_array positions xs =
     (if xs = [] then Inr []
      else if list_ex (\<lambda>i. length xs \<le> i) positions then Inl IndexError
      else Inr (map (\<lambda>i. xs ! i) positions))"

definition shard :: "bool \<Rightarrow> nat \<Rightarrow> int \<Rightarrow> 'a list \<Rightarrow> error + 'a list" where
  "shard contiguous num_shards index xs =
     (if \<not> (0 \<le> index \<and> index < int num_shards) then Inl ValueError
      else if contiguous then
        (let d = length xs div num_shards;
             m = length xs mod num_shards;
             start = d * nat index + min (nat index) m;
             stop = start + d + (if nat index < m then 1 else 0)
         in select_range start stop xs)
      else select_array (arange (nat index) (length xs) num_shards) xs)"

text \<open>Where the contiguous split starts shard \<open>index\<close>; used to state its properties.\<close>

definition contiguous_start :: "nat \<Rightarrow> nat \<Rightarrow> nat \<Rightarrow> nat" where
  "contiguous_start n num_shards index =
     (n div num_shards) * index + min index (n mod num_shards)"

subsection \<open>The interpreter state: \<open>sys.stdout\<close>, the console, the calls made\<close>

datatype stream = Console

record state =
  sys_stdout :: "stream option"
  console :: "string list"
  trace :: "event list"

definition initial_state :: state where
  "initial_state = \<lparr>sys_stdout = Some Console, console = [], trace = []\<rparr>"

text \<open>\<open>print(s)\<close> writes a line to \<open>sys.stdout\<close>, and nothing when that is \<open>None\<close>.\<close>

definition print :: "string \<Rightarrow> state \<Rightarrow> state" where
  "print s st =
     (case sys_stdout st of
        None \<Rightarrow> st
      | Some Console \<Rightarrow> st\<lparr>console := console st @ [s]\<rparr>)"

definition call :: "event \<Rightarrow> state \<Rightarrow> state" where
  "call ev st = st\<lparr>trace := trace st @ [ev]\<rparr>"

text \<open>An action runs in a state and ends in a value or in an exception.\<close>

type_synonym 'a action = "state \<Rightarrow> (error + 'a) \<times> state"

definition ret :: "'a \<Rightarrow> 'a action" where
  "ret x st = (Inr x, st)"

definition bind :: "'a action \<Rightarrow> ('a \<Rightarrow> 'b action) \<Rightarrow> 'b action" where
  "bind m f st = (case m st of (Inl e, st') \<Rightarrow> (Inl e, st') | (Inr x, st') \<Rightarrow> f x st')"

definition lift :: "error + 'a \<Rightarrow> 'a action" where
  "lift r st = (r, st)"

definition external :: "event \<Rightarrow> error + 'a \<Rightarrow> 'a action" where
  "external ev outcome st = (outcome, call ev st)"

definition say :: "string \<Rightarrow> unit action" where
  "say s st = (Inr (), print s st)"

text \<open>A call of the trainer: it is recorded, its lines are printed, its exception raised.\<close>

definition trainer_call :: "event \<Rightarrow> string list \<times> error option \<Rightarrow> unit action" where
  "trainer_call ev out st =
     ((case snd out of None \<Rightarrow> Inr () | Some e \<Rightarrow> Inl e), fold print (fst out) (call ev st))"

subsection \<open>Line 79: \<open>with nullcontext() if rank == 0 else redirect_stdout(None)\<close>\<close>

text \<open>
  \<open>nullcontext\<close> does nothing on entry and exit. \<open>redirect_stdout(new)\<close> stores
  \<open>sys.stdout\<close> and sets it to \<open>new\<close> on entry, and puts the stored value back on
  exit; neither \<open>__exit__\<close> swallows an exception, so the body's outcome is the
  outcome of the statement.
\<close>

datatype context_manager = nullcontext | redirect_stdout "stream option"

definition with_context :: "context_manager \<Rightarrow> 'a action \<Rightarrow> 'a action" where
  "with_context cm body st =
     (case cm of
        nullcontext \<Rightarrow> body st
      | redirect_stdout new \<Rightarrow>
          (let old = sys_stdout st;
               (r, st') = body (st\<lparr>sys_stdout := new\<rparr>)
           in (r, st'\<lparr>sys_stdout := old\<rparr>)))"

subsection \<open>\<open>run\<close>\<close>

text \<open>Lines 41 to 46.\<close>

definition announcement :: "world \<Rightarrow> string" where
  "announcement w = ''Using DDP across '' @ str_nat (get_world_size w) @ '' GPUs.''"

definition init_distributed :: "world \<Rightarrow> int \<Rightarrow> unit action" where
  "init_distributed w rank =
     bind (external (SetDevice rank)
             (case cuda_set_device w rank of None \<Rightarrow> Inr () | Some e \<Rightarrow> Inl e)) (\<lambda>_.
     bind (external (InitProcessGroup ''nccl'')
             (case init_process_group w ''nccl'' of None \<Rightarrow> Inr () | Some e \<Rightarrow> Inl e)) (\<lambda>_.
     if rank = 0 then say (announcement w) else ret ()))"

text \<open>Lines 56 to 63 and 65 to 70: the arguments of the two loaders.\<close>

definition model_request_of :: "RunConfig \<Rightarrow> int \<Rightarrow> bool \<Rightarrow> model_request" where
  "model_request_of args rank bf16 =
     \<lparr>pretrained_name = model args,
      attn_implementation = ''sdpa'',
      device_map = ''cuda:'' @ str_int rank,
      quantization_8bit = load_in_8bit args,
      torch_dtype = select_dtype (load_in_8bit args) bf16,
      token = hf_token args\<rparr>"

definition dataset_request_of :: "RunConfig \<Rightarrow> dataset_request" where
  "dataset_request_of args =
     \<lparr>path = dataset args, split_name = split args, trust_remote_code = True\<rparr>"

text \<open>Lines 75 and 76.\<close>

definition partition :: "world \<Rightarrow> bool \<Rightarrow> int \<Rightarrow> nat list list \<Rightarrow> nat list list action" where
  "partition w ddp rank tokenized =
     (if ddp
      then external (Shard (get_world_size w) rank)
             (shard (shard_contiguous w) (get_world_size w) rank tokenized)
      else ret tokenized)"

text \<open>What lines 37 to 76 leave in the local variables.\<close>

record prepared =
  p_ddp :: bool
  p_rank :: int
  p_args :: RunConfig
  p_model :: model_handle
  p_tokenized :: "nat list list"

definition prepare :: "world \<Rightarrow> prepared action" where
  "prepare w =
     bind (lift (topology (environ w ''LOCAL_RANK''))) (\<lambda>(ddp, rank).
     bind (if ddp then init_distributed w rank else ret ()) (\<lambda>_.
     bind (external Parse (parse (argv w))) (\<lambda>args.
     bind (external (FromPretrained (model_request_of args rank (is_bf16_supported w)))
             (from_pretrained w (model_request_of args rank (is_bf16_supported w)))) (\<lambda>m.
     bind (external (LoadDataset (dataset_request_of args))
             (load_dataset w (dataset_request_of args))) (\<lambda>ds.
     bind (external (TokenizerFromPretrained (model args))
             (tokenizer_from_pretrained w (model args))) (\<lambda>tk.
     bind (external (ChunkAndTokenize (ctx_len args))
             (chunk_and_tokenize w ds tk (ctx_len args))) (\<lambda>tokenized.
     bind (partition w ddp rank tokenized) (\<lambda>tokenized.
     ret \<lparr>p_ddp = ddp, p_rank = rank, p_args = args, p_model = m,
          p_tokenized = tokenized\<rparr>))))))))"

text \<open>Lines 80 to 84, the body of the \<open>with\<close> statement.\<close>

definition dtype_str :: "torch_dtype \<Rightarrow> string" where
  "dtype_str d =
     (case d of
        Float16 \<Rightarrow> ''torch.float16''
      | BFloat16 \<Rightarrow> ''torch.bfloat16''
      | Float32 \<Rightarrow> ''torch.float32'')"

definition training_line :: "RunConfig \<Rightarrow> string" where
  "training_line args =
     ''Training on '' @ [CHR 0x27] @ dataset args @ [CHR 0x27] @ '' (split ''
       @ [CHR 0x27] @ split args @ [CHR 0x27] @ '')''"

definition storing_line :: "model_handle \<Rightarrow> string" where
  "storing_line m = ''Storing model weights in '' @ dtype_str (dtype m)"

definition handoff :: "world \<Rightarrow> prepared \<Rightarrow> unit action" where
  "handoff w p =
     bind (say (training_line (p_args p))) (\<lambda>_.
     bind (say (storing_line (p_model p))) (\<lambda>_.
     bind (trainer_call (NewSaeTrainer (p_args p) (p_tokenized p) (p_model p))
             (new_trainer w (p_args p) (p_tokenized p) (p_model p))) (\<lambda>_.
     trainer_call Fit (fit w (p_args p) (p_tokenized p) (p_model p)))))"

definition gate :: "int \<Rightarrow> context_manager" where
  "gate rank = (if rank = 0 then nullcontext else redirect_stdout None)"

definition run :: "world \<Rightarrow> (error + unit) \<times> state" where
  "run w =
     bind (prepare w) (\<lambda>p. with_context (gate (p_rank p)) (handoff w p)) initial_state"

subsection \<open>Auxiliary definitions for the statements\<close>

text \<open>The state \<open>run\<close> has reached when it calls the argument parser.\<close>

definition before_parse :: "world \<Rightarrow> bool \<Rightarrow> int \<Rightarrow> state \<Rightarrow> state" where
  "before_parse w ddp rank st =
     (if ddp
      then (if rank = 0 then print (announcement w) else id)
             (call (InitProcessGroup ''nccl'') (call (SetDevice rank) st))
      else st)"

text \<open>What the trainer prints: its constructor's lines, then those of \<open>fit\<close> if it is reached.\<close>

definition trainer_output :: "world \<Rightarrow> prepared \<Rightarrow> string list" where
  "trainer_output w p =
     fst (new_trainer w (p_args p) (p_tokenized p) (p_model p))
     @ (case snd (new_trainer w (p_args p) (p_tokenized p) (p_model p)) of
          None \<Rightarrow> fst (fit w (p_args p) (p_tokenized p) (p_model p))
        | Some e \<Rightarrow> [])"

text \<open>How the body of the \<open>with\<close> statement ends.\<close>

definition handoff_outcome :: "world \<Rightarrow> prepared \<Rightarrow> error + unit" where
  "handoff_outcome w p =
     (case snd (new_trainer w (p_args p) (p_tokenized p) (p_model p)) of
        Some e \<Rightarrow> Inl e
      | None \<Rightarrow>
          (case snd (fit w (p_args p) (p_tokenized p) (p_model p)) of
             Some e \<Rightarrow> Inl e
           | None \<Rightarrow> Inr ()))"

text \<open>An event that is not a dataset load without permission to run remote code.\<close>

definition trusting :: "event \<Rightarrow> bool" where
  "trusting ev = (case ev of LoadDataset r \<Rightarrow> trust_remote_code r | _ \<Rightarrow> True)"

text \<open>
  A world for concrete runs: four processes, hardware with bf16, a loader that honours the
  dtype it is asked for, a dataset of three texts with one chunk each, striped shards.
\<close>

definition example_world :: "string option \<Rightarrow> string option \<Rightarrow> bool \<Rightarrow> world" where
  "example_world local_rank ctx quantized =
     \<lparr>environ = (\<lambda>k. if k = ''LOCAL_RANK'' then local_rank else None),
      argv = \<lparr>arg_base = Inr \<lparr>load_in_8bit = quantized, hf_token = None\<rparr>,
              arg_model = None, arg_dataset = None, arg_split = None, arg_ctx_len = ctx\<rparr>,
      cuda_set_device = (\<lambda>_. None),
      init_process_group = (\<lambda>_. None),
      get_world_size = 4,
      is_bf16_supported = True,
      from_pretrained =
        (\<lambda>r. Inr \<lparr>loaded_from = pretrained_name r,
                  dtype = (case torch_dtype r of Dtype d \<Rightarrow> d | Auto \<Rightarrow> Float32)\<rparr>),
      load_dataset = (\<lambda>_. Inr [''a'', ''bc'', ''def'']),
      tokenizer_from_pretrained = (\<lambda>n. Inr (Tokenizer n)),
      chunk_and_tokenize = (\<lambda>ds tk n. Inr (map (\<lambda>t. [length t]) ds)),
      shard_contiguous = False,
      new_trainer = (\<lambda>_ _ _. ([], None)),
      fit = (\<lambda>_ _ _. ([''step 1''], None))\<rparr>"

text \<open>The configuration the defaults give, a loaded model, a run that has reached the gate.\<close>

definition example_args :: "bool \<Rightarrow> int \<Rightarrow> RunConfig" where
  "example_args quantized n =
     \<lparr>load_in_8bit = quantized, hf_token = None,
      model = ''EleutherAI/pythia-160m'',
      dataset = ''togethercomputer/RedPajama-Data-1T-Sample'',
      split = ''train'', ctx_len = n\<rparr>"

definition example_model :: "torch_dtype \<Rightarrow> model_handle" where
  "example_model d = \<lparr>loaded_from = ''EleutherAI/pythia-160m'', dtype = d\<rparr>"

definition example_prepared :: "int \<Rightarrow> prepared" where
  "example_prepared rank =
     \<lparr>p_ddp = True, p_rank = rank, p_args = example_args False 2048,
      p_model = example_model BFloat16, p_tokenized = [[2]]\<rparr>"

text \<open>
  The same world with a library whose \<open>shard\<close> splits contiguously, and with a loader
  that returns float32 weights whatever it is asked for.
\<close>

definition contiguous_shards :: "world \<Rightarrow> world" where
  "contiguous_shards w = w\<lparr>shard_contiguous := True\<rparr>"

definition float32_loader :: "world \<Rightarrow> world" where
  "float32_loader w =
     w\<lparr>from_pretrained := (\<lambda>r. Inr \<lparr>loaded_from = pretrained_name r, dtype = Float32\<rparr>)\<rparr>"

text \<open>A tokenized dataset of ten sequences.\<close>

definition ten_chunks :: "nat list list" where
  "ten_chunks = [[10], [11], [12], [13], [14], [15], [16], [17], [18], [19]]"

text \<open>The same world with a trainer whose \<open>fit\<close> prints a line and raises.\<close>

definition failing_fit :: "world \<Rightarrow> world" where
  "failing_fit w = w\<lparr>fit := (\<lambda>_ _ _. ([''step 1''], Some (Raised ''OutOfMemoryError'')))\<rparr>"

section \<open>Properties\<close>

subsection \<open>Striping: \<open>arange(index, len, num_shards)\<close>\<close>

lemma arange_member:
  assumes "0 < W"
  shows "i \<in> set (arange r N W) \<longleftrightarrow> (\<exists>k. i = r + k * W \<and> r + k * W < N)"
proof -
  have "k < (N - r + W - 1) div W \<longleftrightarrow> r + k * W < N" for k
  proof -
    have "k < (N - r + W - 1) div W \<longleftrightarrow> Suc k \<le> (N - r + W - 1) div W" by auto
    also have "\<dots> \<longleftrightarrow> Suc k * W \<le> N - r + W - 1"
      using assms by (simp only: less_eq_div_iff_mult_less_eq)
    also have "\<dots> \<longleftrightarrow> r + k * W < N" using assms by auto
    finally show ?thesis .
  qed
  then show ?thesis by (auto simp: arange_def)
qed

lemma arange_set:
  assumes "r < W"
  shows "set (arange r N W) = {i. i < N \<and> i mod W = r}"
proof (rule set_eqI)
  fix i
  show "i \<in> set (arange r N W) \<longleftrightarrow> i \<in> {i. i < N \<and> i mod W = r}"
  proof
    assume "i \<in> set (arange r N W)"
    then obtain k where "i = r + k * W" "r + k * W < N"
      using assms by (auto simp: arange_member)
    then show "i \<in> {i. i < N \<and> i mod W = r}" using assms by simp
  next
    assume "i \<in> {i. i < N \<and> i mod W = r}"
    then have "i < N" "i mod W = r" by auto
    then have "i = r + (i div W) * W" by (metis mod_div_mult_eq)
    then show "i \<in> set (arange r N W)"
      using assms \<open>i < N\<close> by (auto simp: arange_member)
  qed
qed

lemma arange_distinct: "0 < W \<Longrightarrow> distinct (arange r N W)"
  by (simp add: arange_def distinct_map inj_on_def)

lemma arange_sorted: "sorted (arange r N W)"
  by (simp add: arange_def sorted_map sorted_wrt_iff_nth_less)

lemma arange_filter:
  assumes "r < W"
  shows "arange r N W = filter (\<lambda>i. i mod W = r) [0..<N]"
proof (rule sorted_distinct_set_unique)
  show "sorted (arange r N W)" by (rule arange_sorted)
  show "distinct (arange r N W)" using assms by (simp add: arange_distinct)
  show "sorted (filter (\<lambda>i. i mod W = r) [0..<N])" by (simp add: sorted_wrt_filter)
  show "distinct (filter (\<lambda>i. i mod W = r) [0..<N])" by simp
  show "set (arange r N W) = set (filter (\<lambda>i. i mod W = r) [0..<N])"
    using assms by (auto simp: arange_set)
qed


lemma arange_length:
  assumes "r < W"
  shows "N div W \<le> length (arange r N W) \<and> length (arange r N W) \<le> N div W + 1"
proof -
  have len: "length (arange r N W) = (N - r + W - 1) div W" by (simp add: arange_def)
  have "(N - r + W - 1) div W \<le> (N + W) div W" by (rule div_le_mono) simp
  also have "\<dots> = N div W + 1" using assms div_add_self2 [of W N] by auto
  finally have up: "(N - r + W - 1) div W \<le> N div W + 1" .
  have lo: "N div W \<le> (N - r + W - 1) div W"
  proof (cases "r \<le> N")
    case True
    then show ?thesis using assms by (intro div_le_mono) simp
  next
    case False
    then have "N div W = 0" using assms by simp
    then show ?thesis by simp
  qed
  show ?thesis using up lo assms by (simp add: len)
qed

lemma arange_count:
  assumes "0 < W"
  shows "(\<Sum>r<W. mset (arange r N W)) = mset [0..<N]"
proof (rule multiset_eqI)
  fix i
  have "count (\<Sum>r<W. mset (arange r N W)) i = (\<Sum>r<W. count (mset (arange r N W)) i)"
    by (simp add: count_sum)
  also have "\<dots> = (\<Sum>r<W. if i < N \<and> i mod W = r then 1 else 0)"
  proof (rule sum.cong)
    fix r assume "r \<in> {..<W}"
    then have "r < W" by simp
    have "count (mset (arange r N W)) i = (if i \<in> set (arange r N W) then 1 else 0)"
      using arange_distinct [OF assms, of r N] by (simp only: distinct_count_atmost_1)
    then show "count (mset (arange r N W)) i = (if i < N \<and> i mod W = r then 1 else 0)"
      using \<open>r < W\<close> by (simp add: arange_set)
  qed simp
  also have "\<dots> = (if i < N then 1 else 0)"
    using assms by (simp add: sum.delta')
  also have "\<dots> = count (mset [0..<N]) i" by (simp add: count_mset_set')
  finally show "count (\<Sum>r<W. mset (arange r N W)) i = count (mset [0..<N]) i" .
qed

subsection \<open>The contiguous split\<close>

lemma contiguous_start_Suc:
  "contiguous_start n W (Suc r)
     = contiguous_start n W r + n div W + (if r < n mod W then 1 else 0)"
  by (simp add: contiguous_start_def min_def)

lemma contiguous_indices:
  "shard_indices True n W r = [contiguous_start n W r..<contiguous_start n W (Suc r)]"
  by (simp only: contiguous_start_Suc)
     (simp only: shard_indices_def contiguous_start_def Let_def if_True)

lemma contiguous_start_step: "contiguous_start n W r \<le> contiguous_start n W (Suc r)"
  by (simp add: contiguous_start_def min_def)

lemma contiguous_start_mono:
  "r \<le> r' \<Longrightarrow> contiguous_start n W r \<le> contiguous_start n W r'"
  by (induction r' ) (auto simp: le_Suc_eq intro: order_trans [OF _ contiguous_start_step])

lemma contiguous_start_0: "contiguous_start n W 0 = 0"
  by (simp add: contiguous_start_def)

lemma contiguous_start_end:
  assumes "0 < W"
  shows "contiguous_start n W W = n"
proof -
  have "n mod W < W" using assms by simp
  then have "min W (n mod W) = n mod W" by simp
  then show ?thesis by (simp add: contiguous_start_def)
qed

lemma contiguous_union:
  "(\<Union>r<k. {contiguous_start n W r..<contiguous_start n W (Suc r)}) = {0..<contiguous_start n W k}"
proof (induction k)
  case 0
  show ?case by (simp add: contiguous_start_0)
next
  case (Suc k)
  have "{0..<contiguous_start n W k} \<union> {contiguous_start n W k..<contiguous_start n W (Suc k)}
        = {0..<contiguous_start n W (Suc k)}"
    using contiguous_start_step [of n W k] by auto
  with Suc show ?case by (simp add: lessThan_Suc Un_commute)
qed

lemma contiguous_count:
  "(\<Sum>r<k. mset [contiguous_start n W r..<contiguous_start n W (Suc r)])
     = mset [0..<contiguous_start n W k]"
proof (induction k)
  case 0
  show ?case by (simp add: contiguous_start_0)
next
  case (Suc k)
  have "[0..<contiguous_start n W (Suc k)]
        = [0..<contiguous_start n W k] @ [contiguous_start n W k..<contiguous_start n W (Suc k)]"
    using contiguous_start_step [of n W k] upt_add_eq_append [of 0 "contiguous_start n W k"]
    by (metis le0 le_add_diff_inverse)
  then have "mset [0..<contiguous_start n W (Suc k)]
        = mset [0..<contiguous_start n W k]
          + mset [contiguous_start n W k..<contiguous_start n W (Suc k)]"
    by (metis mset_append)
  with Suc show ?case by (simp only: sum.lessThan_Suc)
qed

lemma contiguous_disjoint:
  assumes "r1 < r2"
  shows "{contiguous_start n W r1..<contiguous_start n W (Suc r1)}
         \<inter> {contiguous_start n W r2..<contiguous_start n W (Suc r2)} = {}"
proof -
  have "contiguous_start n W (Suc r1) \<le> contiguous_start n W r2"
    using assms by (intro contiguous_start_mono) simp
  then show ?thesis by auto
qed

lemma contiguous_length:
  "N div W \<le> length (shard_indices True N W r)
   \<and> length (shard_indices True N W r) \<le> N div W + 1"
  by (simp add: shard_indices_def Let_def)

subsection \<open>Either scheme\<close>

lemma shard_indices_distinct: "0 < W \<Longrightarrow> distinct (shard_indices c N W r)"
  by (cases c) (simp_all add: contiguous_indices, simp add: shard_indices_def arange_distinct)

lemma shard_indices_length:
  "r < W \<Longrightarrow> N div W \<le> length (shard_indices c N W r)
     \<and> length (shard_indices c N W r) \<le> N div W + 1"
  using contiguous_length [of N W r] arange_length [of r W N]
  by (cases c) (simp_all add: shard_indices_def)

lemma shard_indices_disjoint:
  assumes "r1 < W" "r2 < W" "r1 \<noteq> r2"
  shows "set (shard_indices c N W r1) \<inter> set (shard_indices c N W r2) = {}"
proof (cases c)
  case True
  show ?thesis
  proof (cases "r1 < r2")
    case True
    with \<open>c\<close> show ?thesis using contiguous_disjoint [of r1 r2 N W]
      by (simp add: contiguous_indices)
  next
    case False
    with assms have "r2 < r1" by simp
    with \<open>c\<close> show ?thesis using contiguous_disjoint [of r2 r1 N W]
      by (simp add: contiguous_indices Int_commute)
  qed
next
  case False
  with assms show ?thesis by (auto simp: shard_indices_def arange_set)
qed

lemma shard_indices_union:
  assumes "0 < W"
  shows "(\<Union>r<W. set (shard_indices c N W r)) = {0..<N}"
proof (cases c)
  case True
  then show ?thesis
    using contiguous_union [of N W W] assms
    by (simp add: contiguous_indices contiguous_start_end)
next
  case False
  have "(\<Union>r<W. set (arange r N W)) = {0..<N}"
    using assms by (auto simp: arange_set)
  with False show ?thesis by (simp add: shard_indices_def)
qed

lemma shard_indices_mset:
  assumes "0 < W"
  shows "(\<Sum>r<W. mset (shard_indices c N W r)) = mset [0..<N]"
proof (cases c)
  case True
  then show ?thesis
    using contiguous_count [of N W W] assms
    by (simp only: contiguous_indices contiguous_start_end)
next
  case False
  then show ?thesis using arange_count [OF assms, of N] by (simp add: shard_indices_def)
qed

lemma shard_indices_bound:
  assumes "r < W" "i \<in> set (shard_indices c N W r)"
  shows "i < N"
proof -
  have "i \<in> (\<Union>r<W. set (shard_indices c N W r))" using assms by blast
  then show ?thesis using assms(1) shard_indices_union [of W c N] by simp
qed

lemma shards_mset:
  assumes "0 < W"
  shows "(\<Sum>r<W. mset (map (\<lambda>i. xs ! i) (shard_indices c (length xs) W r))) = mset xs"
proof -
  have "(\<Sum>r<k. mset (map (\<lambda>i. xs ! i) (shard_indices c (length xs) W r)))
        = image_mset (\<lambda>i. xs ! i) (\<Sum>r<k. mset (shard_indices c (length xs) W r))" for k
    by (induction k) simp_all
  then have "(\<Sum>r<W. mset (map (\<lambda>i. xs ! i) (shard_indices c (length xs) W r)))
        = image_mset (\<lambda>i. xs ! i) (\<Sum>r<W. mset (shard_indices c (length xs) W r))" .
  also have "\<dots> = mset (map (\<lambda>i. xs ! i) [0..<length xs])"
    using assms by (simp only: shard_indices_mset mset_map)
  also have "\<dots> = mset xs" by (simp only: map_nth)
  finally show ?thesis .
qed

subsection \<open>When \<open>shard\<close> returns and when it raises\<close>

lemma arange_empty: "0 < W \<Longrightarrow> N \<le> r \<Longrightarrow> arange r N W = []"
  by (simp add: arange_def)

lemma shard_striped:
  assumes "r < W"
  shows "shard False W (int r) xs = Inr (map (\<lambda>i. xs ! i) (shard_indices False (length xs) W r))"
proof (cases "xs = []")
  case True
  then show ?thesis using assms by (simp add: shard_def select_array_def shard_indices_def arange_empty)
next
  case False
  have "\<not> list_ex (\<lambda>i. length xs \<le> i) (arange r (length xs) W)"
    using assms by (auto simp: list_ex_iff arange_set)
  then show ?thesis using assms False
    by (simp add: shard_def select_array_def shard_indices_def)
qed

lemma shard_contiguous_eq:
  assumes "r < W"
  shows "shard True W (int r) xs
           = select_range (contiguous_start (length xs) W r)
               (contiguous_start (length xs) W (Suc r)) xs"
  using assms
  by (simp only: contiguous_start_Suc)
     (simp add: shard_def contiguous_start_def Let_def)

lemma contiguous_start_inside:
  assumes "r < W" "W \<le> N"
  shows "contiguous_start N W r < N" "contiguous_start N W (Suc r) \<le> N"
proof -
  have pos: "0 < W" using assms by simp
  have "contiguous_start N W (Suc r) \<le> contiguous_start N W W"
    using assms by (intro contiguous_start_mono) simp
  then show le: "contiguous_start N W (Suc r) \<le> N" using pos by (simp add: contiguous_start_end)
  have "1 \<le> N div W" using assms pos by (simp add: Suc_le_eq div_greater_zero_iff)
  then have "contiguous_start N W r < contiguous_start N W (Suc r)"
    by (simp add: contiguous_start_Suc)
  with le show "contiguous_start N W r < N" by simp
qed

lemma shard_when_world_fits:
  assumes "r < W" "W \<le> length xs"
  shows "shard c W (int r) xs = Inr (map (\<lambda>i. xs ! i) (shard_indices c (length xs) W r))"
proof (cases c)
  case True
  have "xs \<noteq> []" using assms by auto
  then show ?thesis
    using True assms contiguous_start_inside [OF assms]
    by (simp add: shard_contiguous_eq select_range_def contiguous_indices)
next
  case False
  then show ?thesis using assms by (simp add: shard_striped)
qed

lemma shard_contiguous_beyond:
  assumes "xs \<noteq> []" "length xs \<le> r" "r < W"
  shows "shard True W (int r) xs = Inl IndexError"
proof -
  have "length xs div W = 0" "length xs mod W = length xs" using assms by simp_all
  then have "contiguous_start (length xs) W r = length xs"
    using assms by (simp add: contiguous_start_def)
  then show ?thesis using assms by (simp add: shard_contiguous_eq select_range_def)
qed

lemma shard_world_of_one: "shard c 1 0 xs = Inr xs"
proof (cases "xs = []")
  case True
  then show ?thesis by (cases c) (simp_all add: shard_def select_range_def select_array_def)
next
  case False
  then have "1 \<le> length xs" by (cases xs) simp_all
  then have "shard c 1 (int 0) xs = Inr (map (\<lambda>i. xs ! i) (shard_indices c (length xs) 1 0))"
    by (intro shard_when_world_fits) simp_all
  moreover have "shard_indices c (length xs) 1 0 = [0..<length xs]"
    by (cases c) (simp_all add: shard_indices_def arange_def map_idI)
  ultimately show ?thesis by (simp add: map_nth)
qed

lemma partition_distributed:
  "partition w True rank toks st
     = (shard (shard_contiguous w) (get_world_size w) rank toks,
        call (Shard (get_world_size w) rank) st)"
  by (simp add: partition_def external_def)

lemma first_shard_smaller:
  assumes "2 \<le> W" "W \<le> N"
  shows "length (shard_indices c N W 0) < N"
proof -
  have pos: "0 < W" "1 < W" using assms by simp_all
  have "1 \<le> N div W" using assms pos by (simp add: Suc_le_eq div_greater_zero_iff)
  then have "shard_indices c N W 1 \<noteq> []"
    using shard_indices_length [OF pos(2), of N c] by auto
  then obtain i where i: "i \<in> set (shard_indices c N W 1)"
    by (cases "shard_indices c N W 1") auto
  have iN: "i < N" using shard_indices_bound [OF pos(2) i] .
  have "i \<notin> set (shard_indices c N W 0)"
    using shard_indices_disjoint [of 0 W 1 c N] pos i by auto
  moreover have "set (shard_indices c N W 0) \<subseteq> {0..<N}"
    using shard_indices_bound [OF pos(1), of _ c N] by auto
  ultimately have "set (shard_indices c N W 0) \<subset> {0..<N}" using iN by auto
  then have "card (set (shard_indices c N W 0)) < card {0..<N}"
    by (intro psubset_card_mono) simp_all
  then show ?thesis
    using shard_indices_distinct [OF pos(1), of c N 0] by (simp add: distinct_card)
qed

text \<open>
  C1. Lines 75 and 76 hand rank \<open>r\<close> of a world of \<open>W\<close> processes the shard
  \<open>shard(W, r)\<close> of the tokenized dataset. For a dataset of \<open>N\<close> elements with
  \<open>1 \<le> W \<le> N\<close>, under either scheme: the call returns for every rank below \<open>W\<close>;
  the shards select pairwise disjoint sets of positions, each position at most once;
  together the positions are exactly \<open>0 .. N - 1\<close>, so the shards hold the elements of
  the dataset exactly once each (as multisets); two shard sizes differ by at most one.
  With ten elements and four ranks, rank 0 holds three and ranks 1 to 3 hold seven.
\<close>

theorem shards_partition:
  assumes "get_world_size w = W" and "shard_contiguous w = c"
    and "1 \<le> W" and "W \<le> length toks"
  shows "(\<forall>r<W. partition w True (int r) toks st
            = (Inr (map (\<lambda>i. toks ! i) (shard_indices c (length toks) W r)),
               call (Shard W (int r)) st))
       \<and> (\<forall>r1<W. \<forall>r2<W. r1 \<noteq> r2 \<longrightarrow>
            set (shard_indices c (length toks) W r1)
              \<inter> set (shard_indices c (length toks) W r2) = {})
       \<and> (\<forall>r<W. distinct (shard_indices c (length toks) W r))
       \<and> (\<Union>r<W. set (shard_indices c (length toks) W r)) = {0..<length toks}
       \<and> (\<Sum>r<W. mset (map (\<lambda>i. toks ! i) (shard_indices c (length toks) W r))) = mset toks
       \<and> (\<forall>r1<W. \<forall>r2<W.
            length (shard_indices c (length toks) W r1)
              \<le> length (shard_indices c (length toks) W r2) + 1)
       \<and> (length toks = 10 \<and> W = 4 \<longrightarrow>
            length (shard_indices c (length toks) W 0) = 3
            \<and> length (shard_indices c (length toks) W 1)
                + length (shard_indices c (length toks) W 2)
                + length (shard_indices c (length toks) W 3) = 7)"
proof -
  have pos: "0 < W" using assms(3) by simp
  have a: "\<forall>r<W. partition w True (int r) toks st
            = (Inr (map (\<lambda>i. toks ! i) (shard_indices c (length toks) W r)),
               call (Shard W (int r)) st)"
    using assms(1,2,4) by (simp add: partition_distributed shard_when_world_fits)
  have b: "\<forall>r1<W. \<forall>r2<W. r1 \<noteq> r2 \<longrightarrow>
            set (shard_indices c (length toks) W r1)
              \<inter> set (shard_indices c (length toks) W r2) = {}"
    using shard_indices_disjoint by blast
  have d: "\<forall>r<W. distinct (shard_indices c (length toks) W r)"
    using pos by (simp add: shard_indices_distinct)
  have e: "\<forall>r1<W. \<forall>r2<W.
            length (shard_indices c (length toks) W r1)
              \<le> length (shard_indices c (length toks) W r2) + 1"
  proof (intro allI impI)
    fix r1 r2 assume "r1 < W" "r2 < W"
    then show "length (shard_indices c (length toks) W r1)
              \<le> length (shard_indices c (length toks) W r2) + 1"
      using shard_indices_length [of r1 W "length toks" c]
            shard_indices_length [of r2 W "length toks" c] by linarith
  qed
  have f: "length (shard_indices c 10 4 0) = 3
           \<and> length (shard_indices c 10 4 1) + length (shard_indices c 10 4 2)
               + length (shard_indices c 10 4 3) = 7"
    by (cases c) (simp_all add: shard_indices_def arange_def Let_def)
  show ?thesis
    using a b d e f shard_indices_union [OF pos, of c "length toks"]
      shards_mset [OF pos, of toks c]
    by simp
qed

theorem shards_partition_witness:
  "get_world_size (example_world None None False) = 4
   \<and> shard_contiguous (example_world None None False) = False
   \<and> shard_contiguous (contiguous_shards (example_world None None False)) = True
   \<and> (1::nat) \<le> 4 \<and> 4 \<le> length ten_chunks
   \<and> map (\<lambda>r. fst (partition (example_world None None False) True r ten_chunks initial_state))
        [0, 1, 2, 3]
      = [Inr [[10], [14], [18]], Inr [[11], [15], [19]], Inr [[12], [16]], Inr [[13], [17]]]
   \<and> map (\<lambda>r. fst (partition (contiguous_shards (example_world None None False)) True r
                      ten_chunks initial_state))
        [0, 1, 2, 3]
      = [Inr [[10], [11], [12]], Inr [[13], [14], [15]], Inr [[16], [17]], Inr [[18], [19]]]"
proof -
  have a: "get_world_size (example_world None None False) = 4" by code_simp
  have b: "shard_contiguous (example_world None None False) = False" by code_simp
  have c: "shard_contiguous (contiguous_shards (example_world None None False)) = True"
    by code_simp
  have d: "(1::nat) \<le> 4 \<and> 4 \<le> length ten_chunks" by code_simp
  have e: "map (\<lambda>r. fst (partition (example_world None None False) True r ten_chunks initial_state))
        [0, 1, 2, 3]
      = [Inr [[10], [14], [18]], Inr [[11], [15], [19]], Inr [[12], [16]], Inr [[13], [17]]]"
    by code_simp
  have f: "map (\<lambda>r. fst (partition (contiguous_shards (example_world None None False)) True r
                      ten_chunks initial_state))
        [0, 1, 2, 3]
      = [Inr [[10], [11], [12]], Inr [[13], [14], [15]], Inr [[16], [17]], Inr [[18], [19]]]"
    by code_simp
  show ?thesis
    using shards_partition [of "example_world None None False" 4 False ten_chunks initial_state]
      a b c d e f
    by (simp only: simp_thms)
qed

text \<open>
  C9, as the code has it. The call at line 76 does not say which scheme it wants, so the
  shard of rank \<open>r\<close> follows the library's default: with striping it is the elements at
  the positions congruent to \<open>r\<close> modulo \<open>W\<close>, in increasing order of position; with
  the contiguous split (and a world no larger than the dataset) it is a block of
  consecutive elements.
\<close>

theorem shard_scheme:
  assumes "get_world_size w = W" and "r < W"
  shows "(\<not> shard_contiguous w \<longrightarrow>
            fst (partition w True (int r) toks st)
              = Inr (map (\<lambda>i. toks ! i) (filter (\<lambda>i. i mod W = r) [0..<length toks])))
       \<and> (shard_contiguous w \<and> W \<le> length toks \<longrightarrow>
            fst (partition w True (int r) toks st)
              = Inr (map (\<lambda>i. toks ! i)
                       [contiguous_start (length toks) W r
                          ..<contiguous_start (length toks) W (Suc r)]))"
proof (intro conjI impI)
  assume "\<not> shard_contiguous w"
  then show "fst (partition w True (int r) toks st)
              = Inr (map (\<lambda>i. toks ! i) (filter (\<lambda>i. i mod W = r) [0..<length toks]))"
    using assms
    by (simp add: partition_distributed shard_striped shard_indices_def arange_filter)
next
  assume "shard_contiguous w \<and> W \<le> length toks"
  then show "fst (partition w True (int r) toks st)
              = Inr (map (\<lambda>i. toks ! i)
                       [contiguous_start (length toks) W r
                          ..<contiguous_start (length toks) W (Suc r)])"
    using assms shard_when_world_fits [of r W toks True]
    by (simp add: partition_distributed contiguous_indices)
qed

theorem shard_scheme_witness:
  "get_world_size (example_world None None False) = 4 \<and> (1::nat) < 4
   \<and> \<not> shard_contiguous (example_world None None False)
   \<and> fst (partition (example_world None None False) True 1 ten_chunks initial_state)
       = Inr [[11], [15], [19]]
   \<and> shard_contiguous (contiguous_shards (example_world None None False))
   \<and> 4 \<le> length ten_chunks
   \<and> fst (partition (contiguous_shards (example_world None None False)) True 1 ten_chunks
            initial_state)
       = Inr [[13], [14], [15]]"
proof -
  have a: "get_world_size (example_world None None False) = 4 \<and> (1::nat) < 4" by code_simp
  have b: "\<not> shard_contiguous (example_world None None False)" by code_simp
  have c: "fst (partition (example_world None None False) True 1 ten_chunks initial_state)
       = Inr [[11], [15], [19]]" by code_simp
  have d: "shard_contiguous (contiguous_shards (example_world None None False))" by code_simp
  have e: "4 \<le> length ten_chunks" by code_simp
  have f: "fst (partition (contiguous_shards (example_world None None False)) True 1 ten_chunks
            initial_state)
       = Inr [[13], [14], [15]]" by code_simp
  show ?thesis
    using shard_scheme [of "example_world None None False" 4 1 ten_chunks initial_state]
      a b c d e f
    by (simp only: simp_thms)
qed

text \<open>
  With the contiguous split, ten elements and four ranks, rank 0 holds the elements at
  positions 0, 1 and 2, not those at 0, 4 and 8.
\<close>

theorem contiguous_shard_not_strided:
  "fst (partition (contiguous_shards (example_world None None False)) True 0 ten_chunks
          initial_state)
     = Inr [[10], [11], [12]]
   \<and> map (\<lambda>i. ten_chunks ! i) (filter (\<lambda>i. i mod 4 = 0) [0..<length ten_chunks])
       = [[10], [14], [18]]
   \<and> fst (partition (contiguous_shards (example_world None None False)) True 0 ten_chunks
            initial_state)
       \<noteq> Inr (map (\<lambda>i. ten_chunks ! i) (filter (\<lambda>i. i mod 4 = 0) [0..<length ten_chunks]))"
  by code_simp

subsection \<open>\<open>int\<close> on integer literals\<close>

lemma decimal_value_snoc:
  "decimal_value (s @ [c]) = 10 * decimal_value s + digit_val c"
proof -
  have "(\<Sum>i<length s. digit_val ((s @ [c]) ! i) * 10 ^ (length s - i))
        = (\<Sum>i<length s. 10 * (digit_val (s ! i) * 10 ^ (length s - 1 - i)))"
  proof (rule sum.cong)
    fix i assume "i \<in> {..<length s}"
    then have i: "i < length s" by simp
    then have "length s - i = Suc (length s - 1 - i)" by simp
    then have "(10::nat) ^ (length s - i) = 10 * 10 ^ (length s - 1 - i)" by simp
    then show "digit_val ((s @ [c]) ! i) * 10 ^ (length s - i)
               = 10 * (digit_val (s ! i) * 10 ^ (length s - 1 - i))"
      using i by (simp add: nth_append)
  qed simp
  then show ?thesis
    by (simp add: decimal_value_def sum_distrib_left)
qed

lemma horner_decimal_value: "horner s = decimal_value s"
proof (induction s rule: rev_induct)
  case Nil
  show ?case by (simp add: horner_def decimal_value_def)
next
  case (snoc c s)
  have "horner (s @ [c]) = 10 * horner s + digit_val c" by (simp add: horner_def)
  with snoc show ?case by (simp add: decimal_value_snoc)
qed

lemma py_isdigit_not_underscore: "py_isdigit c \<Longrightarrow> c \<noteq> CHR ''_''"
  by (auto simp: py_isdigit_def)

lemma py_isspace_not_body:
  "py_isspace c \<Longrightarrow> \<not> digit_or_underscore c \<and> c \<noteq> CHR ''-'' \<and> c \<noteq> CHR ''+''"
  by (auto simp: py_isspace_def digit_or_underscore_def py_isdigit_def Let_def)

lemma underscores_ok_digit: "py_isdigit d \<Longrightarrow> underscores_ok (d # r) = underscores_ok r"
  by (cases r) (auto dest: py_isdigit_not_underscore)

lemma underscores_ok_digits:
  "list_all py_isdigit ds \<Longrightarrow> underscores_ok (ds @ r) = underscores_ok r"
  by (induction ds) (simp_all add: underscores_ok_digit)

lemma join_groups_facts:
  assumes "groups \<noteq> []" "list_all digit_string groups"
  shows "join_groups groups \<noteq> [] \<and> py_isdigit (hd (join_groups groups))
       \<and> underscores_ok (join_groups groups)
       \<and> list_all digit_or_underscore (join_groups groups)
       \<and> filter py_isdigit (join_groups groups) = concat groups"
  using assms
proof (induction groups rule: join_groups.induct)
  case 1
  then show ?case by simp
next
  case (2 g)
  then have g: "g \<noteq> []" "list_all py_isdigit g" by (simp_all add: digit_string_def)
  then have "py_isdigit (hd g)" by (cases g) simp_all
  moreover have "underscores_ok g" using underscores_ok_digits [OF g(2), of "[]"] by simp
  moreover have "list_all digit_or_underscore g"
    using g(2) by (simp add: list_all_iff digit_or_underscore_def)
  moreover have "filter py_isdigit g = g" using g(2) by (simp add: list_all_iff)
  ultimately show ?case using g by simp
next
  case (3 g h gs)
  then have g: "g \<noteq> []" "list_all py_isdigit g" by (simp_all add: digit_string_def)
  from 3 have ih: "join_groups (h # gs) \<noteq> []" "py_isdigit (hd (join_groups (h # gs)))"
    "underscores_ok (join_groups (h # gs))"
    "list_all digit_or_underscore (join_groups (h # gs))"
    "filter py_isdigit (join_groups (h # gs)) = concat (h # gs)"
    by simp_all
  obtain c cs where j: "join_groups (h # gs) = c # cs" using ih(1) by (cases "join_groups (h # gs)") auto
  have c: "c \<noteq> CHR ''_''" using ih(2) j by (simp add: py_isdigit_not_underscore)
  have hdg: "py_isdigit (hd (g @ CHR ''_'' # join_groups (h # gs)))"
    using g by (cases g) simp_all
  have "underscores_ok (CHR ''_'' # join_groups (h # gs))" using ih(3) j c by simp
  then have uo: "underscores_ok (g @ CHR ''_'' # join_groups (h # gs))"
    by (simp add: underscores_ok_digits [OF g(2)])
  have all: "list_all digit_or_underscore (g @ CHR ''_'' # join_groups (h # gs))"
    using g(2) ih(4) by (auto simp: list_all_iff digit_or_underscore_def)
  have filt: "filter py_isdigit (g @ CHR ''_'' # join_groups (h # gs)) = g @ concat (h # gs)"
    using g(2) ih(5) by (simp add: list_all_iff py_isdigit_def)
  show ?case using hdg uo all filt by simp
qed

lemma py_int_shape:
  assumes "list_all py_isspace ws1" "list_all py_isspace ws2"
    and "sign = [] \<or> sign = ''+'' \<or> sign = ''-''"
    and "groups \<noteq> []" "list_all digit_string groups"
  shows "py_int (int_literal ws1 sign groups ws2)
           = (if int_max_str_digits < length (concat groups) then None
              else Some (literal_value sign groups))"
proof -
  let ?J = "join_groups groups"
  note ws1 = assms(1) and ws2 = assms(2) and sign = assms(3) and groups = assms(4,5)
  note J = join_groups_facts [OF groups]
  obtain c cs where Jc: "?J = c # cs" and c: "py_isdigit c"
    using J by (cases ?J) auto
  have cns: "\<not> py_isspace c" "c \<noteq> CHR ''-''" "c \<noteq> CHR ''+''"
    using c by (auto simp: py_isdigit_def py_isspace_def Let_def)
  have t: "dropWhile py_isspace (int_literal ws1 sign groups ws2) = sign @ ?J @ ws2"
  proof -
    have "dropWhile py_isspace (sign @ ?J @ ws2) = sign @ ?J @ ws2"
      using sign Jc cns by (auto simp: py_isspace_def)
    moreover have "dropWhile py_isspace (ws1 @ (sign @ ?J @ ws2))
                     = dropWhile py_isspace (sign @ ?J @ ws2)"
      using ws1 by (intro dropWhile_append2) (simp add: list_all_iff)
    ultimately show ?thesis by (simp add: int_literal_def)
  qed
  have u: "split_sign (sign @ ?J @ ws2) = (sign = ''-'', ?J @ ws2)"
    using sign Jc cns by (auto simp: split_sign_def)
  have body: "takeWhile digit_or_underscore (?J @ ws2) = ?J"
    and rest: "dropWhile digit_or_underscore (?J @ ws2) = ws2"
  proof -
    have a: "\<forall>x\<in>set ?J. digit_or_underscore x" using J by (simp add: list_all_iff)
    have b: "takeWhile digit_or_underscore ws2 = []" "dropWhile digit_or_underscore ws2 = ws2"
      using ws2 by (cases ws2; simp add: py_isspace_not_body)+
    show "takeWhile digit_or_underscore (?J @ ws2) = ?J"
      using a b by (simp add: takeWhile_append2)
    show "dropWhile digit_or_underscore (?J @ ws2) = ws2"
      using a b by (simp add: dropWhile_append2)
  qed
  have tail: "dropWhile py_isspace ws2 = []" using ws2 unfolding list_all_iff by auto
  have hd: "hd ?J \<noteq> CHR ''_''" using J by (simp add: py_isdigit_not_underscore)
  have ne: "?J \<noteq> []" and uo: "underscores_ok ?J"
    and filt: "filter py_isdigit ?J = concat groups" using J by simp_all
  show ?thesis
    unfolding py_int_def t Let_def u
    by (simp add: body rest tail hd ne uo filt horner_decimal_value literal_value_def
          ws2 [unfolded list_all_iff])
qed

lemma py_int_literal:
  assumes "literal_ok ws1 sign groups ws2"
  shows "py_int (int_literal ws1 sign groups ws2) = Some (literal_value sign groups)"
  using assms py_int_shape [of ws1 ws2 sign groups] by (simp add: literal_ok_def)

text \<open>A text of more digits than the interpreter converts is refused.\<close>

lemma py_int_too_long:
  assumes "digit_string s" "int_max_str_digits < length s"
  shows "py_int s = None"
  using py_int_shape [of "[]" "[]" "[]" "[s]"] assms by (simp add: int_literal_def)

text \<open>
  C3. Without the local-rank signal the run is not distributed and the rank is 0. No
  world size is asked for: the partition step makes no call and hands the whole
  tokenized dataset on, which is what rank 0 of a world of one process keeps and is not
  what rank 0 keeps in any larger world that the dataset fills. With a signal that is
  the text of a non-negative integer (white space, sign and underscores as \<open>int\<close>
  allows them, at most \<open>int_max_str_digits\<close> digits) the run is distributed and the
  rank is the number the text denotes.
\<close>

theorem topology_detector:
  "topology None = Inr (False, 0)
   \<and> partition w False 0 toks st = (Inr toks, st)
   \<and> fst (partition (w\<lparr>get_world_size := 1\<rparr>) True 0 toks st) = Inr toks
   \<and> (2 \<le> W \<and> W \<le> length toks \<longrightarrow>
        fst (partition (w\<lparr>get_world_size := W\<rparr>) True 0 toks st) \<noteq> Inr toks)
   \<and> (literal_ok ws1 sign groups ws2 \<and> 0 \<le> literal_value sign groups \<longrightarrow>
        topology (Some (int_literal ws1 sign groups ws2))
          = Inr (True, literal_value sign groups))"
proof (intro conjI impI)
  show "topology None = Inr (False, 0)" by (simp add: topology_def)
  show "partition w False 0 toks st = (Inr toks, st)" by (simp add: partition_def ret_def)
  show "fst (partition (w\<lparr>get_world_size := 1\<rparr>) True 0 toks st) = Inr toks"
    using shard_world_of_one [of "shard_contiguous w" toks]
    by (simp add: partition_distributed)
next
  assume h: "2 \<le> W \<and> W \<le> length toks"
  then have "shard (shard_contiguous w) W (int 0) toks
               = Inr (map (\<lambda>i. toks ! i) (shard_indices (shard_contiguous w) (length toks) W 0))"
    by (intro shard_when_world_fits) simp_all
  moreover have "length (map (\<lambda>i. toks ! i) (shard_indices (shard_contiguous w) (length toks) W 0))
                   < length toks"
    using first_shard_smaller [of W "length toks" "shard_contiguous w"] h by simp
  then have "map (\<lambda>i. toks ! i) (shard_indices (shard_contiguous w) (length toks) W 0) \<noteq> toks"
    by (metis less_irrefl)
  ultimately show "fst (partition (w\<lparr>get_world_size := W\<rparr>) True 0 toks st) \<noteq> Inr toks"
    by (simp add: partition_distributed)
next
  assume "literal_ok ws1 sign groups ws2 \<and> 0 \<le> literal_value sign groups"
  then show "topology (Some (int_literal ws1 sign groups ws2))
          = Inr (True, literal_value sign groups)"
    by (simp add: topology_def py_int_literal)
qed

theorem topology_detector_witness:
  "(2::nat) \<le> 3 \<and> 3 \<le> length [[1], [2], [3::nat]]
   \<and> fst (partition (example_world None None False \<lparr>get_world_size := 3\<rparr>) True 0
            [[1], [2], [3]] initial_state) = Inr [[1]]
   \<and> literal_ok '' '' ''+'' [''1'', ''000''] [CHR 0x0A]
   \<and> 0 \<le> literal_value ''+'' [''1'', ''000'']
   \<and> int_literal '' '' ''+'' [''1'', ''000''] [CHR 0x0A] = '' +1_000'' @ [CHR 0x0A]
   \<and> topology (Some ('' +1_000'' @ [CHR 0x0A])) = Inr (True, 1000)
   \<and> topology (Some ''12'') = Inr (True, 12)"
proof -
  have a: "(2::nat) \<le> 3 \<and> 3 \<le> length [[1], [2], [3::nat]]" by simp
  have b: "fst (partition (example_world None None False \<lparr>get_world_size := 3\<rparr>) True 0
            [[1], [2], [3]] initial_state) = Inr [[1]]" by code_simp
  have c: "literal_ok '' '' ''+'' [''1'', ''000''] [CHR 0x0A]" by code_simp
  have d: "0 \<le> literal_value ''+'' [''1'', ''000'']" by code_simp
  have e: "int_literal '' '' ''+'' [''1'', ''000''] [CHR 0x0A] = '' +1_000'' @ [CHR 0x0A]"
    by code_simp
  have f: "topology (Some ('' +1_000'' @ [CHR 0x0A])) = Inr (True, 1000)" by code_simp
  have g: "topology (Some ''12'') = Inr (True, 12)" by code_simp
  show ?thesis
    using topology_detector [of "example_world None None False" "[[1], [2], [3]]" initial_state 3
        "'' ''" "''+''" "[''1'', ''000'']" "[CHR 0x0A]"] a b c d e f g
    by (simp only: simp_thms)
qed

subsection \<open>Actions\<close>

lemma bind_Inr:
  "bind m f st = (Inr y, st'') \<longleftrightarrow> (\<exists>x st'. m st = (Inr x, st') \<and> f x st' = (Inr y, st''))"
  by (auto simp: bind_def split: prod.splits sum.splits)

lemma bind_Inl:
  "bind m f st = (Inl e, st'') \<longleftrightarrow>
     m st = (Inl e, st'') \<or> (\<exists>x st'. m st = (Inr x, st') \<and> f x st' = (Inl e, st''))"
  by (auto simp: bind_def split: prod.splits sum.splits)

lemma external_eq: "external ev out st = (r, st') \<longleftrightarrow> r = out \<and> st' = call ev st"
  by (auto simp: external_def)

lemma ret_eq: "ret x st = (r, st') \<longleftrightarrow> r = Inr x \<and> st' = st"
  by (auto simp: ret_def)

lemma lift_eq: "lift x st = (r, st') \<longleftrightarrow> r = x \<and> st' = st"
  by (auto simp: lift_def)

lemma say_eq: "say s st = (r, st') \<longleftrightarrow> r = Inr () \<and> st' = print s st"
  by (auto simp: say_def)

lemma init_distributed_Inr:
  "init_distributed w rank st = (Inr u, st') \<longleftrightarrow>
     cuda_set_device w rank = None \<and> init_process_group w ''nccl'' = None
     \<and> st' = (if rank = 0 then print (announcement w) else id)
               (call (InitProcessGroup ''nccl'') (call (SetDevice rank) st))"
  by (auto simp: init_distributed_def bind_Inr external_eq say_eq ret_eq
           split: option.splits)

lemma partition_Inr:
  "partition w ddp rank toks st = (Inr ys, st') \<longleftrightarrow>
     (if ddp
      then shard (shard_contiguous w) (get_world_size w) rank toks = Inr ys
           \<and> st' = call (Shard (get_world_size w) rank) st
      else ys = toks \<and> st' = st)"
  by (auto simp: partition_def external_eq ret_eq)

lemma prepare_Inr:
  assumes "prepare w st = (Inr p, st')"
  shows "\<exists>ds tk toks.
         topology (environ w ''LOCAL_RANK'') = Inr (p_ddp p, p_rank p)
       \<and> (p_ddp p \<longrightarrow> cuda_set_device w (p_rank p) = None \<and> init_process_group w ''nccl'' = None)
       \<and> parse (argv w) = Inr (p_args p)
       \<and> from_pretrained w (model_request_of (p_args p) (p_rank p) (is_bf16_supported w))
           = Inr (p_model p)
       \<and> load_dataset w (dataset_request_of (p_args p)) = Inr ds
       \<and> tokenizer_from_pretrained w (model (p_args p)) = Inr tk
       \<and> chunk_and_tokenize w ds tk (ctx_len (p_args p)) = Inr toks
       \<and> (if p_ddp p
          then shard (shard_contiguous w) (get_world_size w) (p_rank p) toks
                 = Inr (p_tokenized p)
          else p_tokenized p = toks)
       \<and> st' = (if p_ddp p then call (Shard (get_world_size w) (p_rank p)) else id)
          (call (ChunkAndTokenize (ctx_len (p_args p)))
          (call (TokenizerFromPretrained (model (p_args p)))
          (call (LoadDataset (dataset_request_of (p_args p)))
          (call (FromPretrained (model_request_of (p_args p) (p_rank p) (is_bf16_supported w)))
          (call Parse (before_parse w (p_ddp p) (p_rank p) st))))))"
  using assms
  apply (clarsimp simp: prepare_def bind_Inr lift_eq external_eq ret_eq before_parse_def)
  subgoal for a b st2 x xa xb xc xd xe
    by (cases a) (auto simp: init_distributed_Inr ret_eq partition_Inr dest!: sym [of "Inr _"])
  done

subsection \<open>The body of the \<open>with\<close> statement and the gate\<close>

lemma print_fields [simp]:
  "sys_stdout (print s st) = sys_stdout st" "trace (print s st) = trace st"
  by (auto simp: print_def split: option.splits stream.splits)

lemma call_fields [simp]:
  "sys_stdout (call ev st) = sys_stdout st" "console (call ev st) = console st"
  "trace (call ev st) = trace st @ [ev]"
  by (simp_all add: call_def)

lemma print_console:
  "console (print s st) = (case sys_stdout st of None \<Rightarrow> console st | Some c \<Rightarrow> console st @ [s])"
  by (auto simp: print_def split: option.splits stream.splits)

lemma fold_print_fields [simp]:
  "sys_stdout (fold print ls st) = sys_stdout st" "trace (fold print ls st) = trace st"
  by (induction ls arbitrary: st) simp_all

lemma fold_print_console:
  "console (fold print ls st)
     = (case sys_stdout st of None \<Rightarrow> console st | Some c \<Rightarrow> console st @ ls)"
  by (induction ls arbitrary: st) (auto simp: print_console split: option.splits)

lemma handoff_fst: "fst (handoff w p st) = handoff_outcome w p"
  by (simp add: handoff_def handoff_outcome_def bind_def say_def trainer_call_def
           split: option.splits)

lemma handoff_stdout: "sys_stdout (snd (handoff w p st)) = sys_stdout st"
  by (simp add: handoff_def bind_def say_def trainer_call_def split: option.splits)

lemma handoff_console:
  "console (snd (handoff w p st))
     = (case sys_stdout st of
          None \<Rightarrow> console st
        | Some c \<Rightarrow>
            console st @ [training_line (p_args p), storing_line (p_model p)]
              @ trainer_output w p)"
  by (simp add: handoff_def bind_def say_def trainer_call_def trainer_output_def
        fold_print_console print_console split: option.splits)

lemma handoff_trace:
  "trace (snd (handoff w p st))
     = trace st @ NewSaeTrainer (p_args p) (p_tokenized p) (p_model p)
         # (case snd (new_trainer w (p_args p) (p_tokenized p) (p_model p)) of
              None \<Rightarrow> [Fit] | Some e \<Rightarrow> [])"
  by (simp add: handoff_def bind_def say_def trainer_call_def split: option.splits)

lemma with_context_fst:
  "fst (with_context cm body st)
     = fst (body (case cm of nullcontext \<Rightarrow> st | redirect_stdout new \<Rightarrow> st\<lparr>sys_stdout := new\<rparr>))"
  by (simp add: with_context_def split: context_manager.splits prod.splits)

lemma with_context_redirect_stdout:
  "sys_stdout (snd (with_context (redirect_stdout new) body st)) = sys_stdout st"
  by (simp add: with_context_def split: prod.splits)

lemma gated_handoff_console:
  "console (snd (with_context (gate rank) (handoff w p) st))
     = (if rank = 0 then console (snd (handoff w p st)) else console st)"
  using handoff_console [of w p "st\<lparr>sys_stdout := None\<rparr>"]
  by (auto simp: gate_def with_context_def split: prod.splits)

lemma gated_handoff_trace:
  "trace (snd (with_context (gate rank) (handoff w p) st)) = trace (snd (handoff w p st))"
  using handoff_trace [of w p "st\<lparr>sys_stdout := None\<rparr>"] handoff_trace [of w p st]
  by (auto simp: gate_def with_context_def split: prod.splits)

lemma gated_handoff_stdout:
  "sys_stdout (snd (with_context (gate rank) (handoff w p) st)) = sys_stdout st"
  using handoff_stdout [of w p st]
  by (auto simp: gate_def with_context_def split: prod.splits)

lemma gated_handoff_fst:
  "fst (with_context (gate rank) (handoff w p) st) = handoff_outcome w p"
  by (simp add: with_context_fst handoff_fst)

lemma run_after_prepare:
  assumes "prepare w initial_state = (Inr p, st)"
  shows "run w = with_context (gate (p_rank p)) (handoff w p) st"
  using assms by (simp add: run_def bind_def)

lemma run_prepare_fails:
  assumes "prepare w initial_state = (Inl e, st)"
  shows "run w = (Inl e, st)"
  using assms by (simp add: run_def bind_def)

subsection \<open>Every path through \<open>run\<close>\<close>

lemma bind_snd:
  "snd (bind m f st) = (case fst (m st) of Inl e \<Rightarrow> snd (m st) | Inr x \<Rightarrow> snd (f x (snd (m st))))"
  by (simp add: bind_def split: prod.splits sum.splits)

lemma init_distributed_silent:
  "rank \<noteq> 0 \<Longrightarrow> console (snd (init_distributed w rank st)) = console st
     \<and> sys_stdout (snd (init_distributed w rank st)) = sys_stdout st"
  by (simp add: init_distributed_def bind_snd external_def ret_def split: sum.splits option.splits)

lemma init_distributed_stdout:
  "sys_stdout (snd (init_distributed w rank st)) = sys_stdout st"
  by (simp add: init_distributed_def bind_snd external_def ret_def say_def
        split: sum.splits option.splits)

lemma init_distributed_trusting:
  "list_all trusting (trace st) \<Longrightarrow> list_all trusting (trace (snd (init_distributed w rank st)))"
  by (simp add: init_distributed_def bind_snd external_def ret_def say_def trusting_def
        split: sum.splits option.splits)

lemma partition_fields:
  "console (snd (partition w ddp rank toks st)) = console st"
  "sys_stdout (snd (partition w ddp rank toks st)) = sys_stdout st"
  "list_all trusting (trace st) \<Longrightarrow> list_all trusting (trace (snd (partition w ddp rank toks st)))"
  by (simp_all add: partition_def external_def ret_def trusting_def)

lemma prepare_silent:
  assumes "\<And>ddp. topology (environ w ''LOCAL_RANK'') \<noteq> Inr (ddp, 0)"
  shows "console (snd (prepare w st)) = console st"
proof (cases "topology (environ w ''LOCAL_RANK'')")
  case (Inl e)
  then show ?thesis by (simp add: prepare_def bind_snd lift_def)
next
  case (Inr tr)
  obtain ddp rank where tr: "tr = (ddp, rank)" by (cases tr)
  with Inr assms have "rank \<noteq> 0" by auto
  then show ?thesis
    using init_distributed_silent [of rank w st]
    by (simp add: prepare_def bind_snd lift_def Inr tr external_def ret_def partition_fields
          split: sum.splits)
qed

lemma prepare_stdout: "sys_stdout (snd (prepare w st)) = sys_stdout st"
proof (cases "topology (environ w ''LOCAL_RANK'')")
  case (Inl e)
  then show ?thesis by (simp add: prepare_def bind_snd lift_def)
next
  case (Inr tr)
  obtain ddp rank where tr: "tr = (ddp, rank)" by (cases tr)
  show ?thesis
    using init_distributed_stdout [of w rank st]
    by (simp add: prepare_def bind_snd lift_def Inr tr external_def ret_def partition_fields
          split: sum.splits)
qed

lemma prepare_trusting:
  assumes "list_all trusting (trace st)"
  shows "list_all trusting (trace (snd (prepare w st)))"
proof (cases "topology (environ w ''LOCAL_RANK'')")
  case (Inl e)
  then show ?thesis using assms by (simp add: prepare_def bind_snd lift_def)
next
  case (Inr tr)
  obtain ddp rank where tr: "tr = (ddp, rank)" by (cases tr)
  have req: "trusting (LoadDataset (dataset_request_of args))" for args
    by (simp add: trusting_def dataset_request_of_def)
  have other: "trusting Parse" "trusting (FromPretrained r)" "trusting (TokenizerFromPretrained n)"
    "trusting (ChunkAndTokenize k)" for r n k
    by (simp_all add: trusting_def)
  show ?thesis
    using init_distributed_trusting [OF assms, of w rank] assms
    by (simp add: prepare_def bind_snd lift_def Inr tr external_def ret_def partition_fields
          req other split: sum.splits)
qed

lemma run_trusting: "list_all trusting (trace (snd (run w)))"
proof (cases "prepare w initial_state")
  case (Pair r st)
  have st: "list_all trusting (trace st)"
    using prepare_trusting [of initial_state w] Pair by (simp add: initial_state_def)
  show ?thesis
  proof (cases r)
    case (Inl e)
    with Pair st show ?thesis by (simp add: run_prepare_fails)
  next
    case (Inr p)
    with Pair st show ?thesis
      by (simp add: run_after_prepare gated_handoff_trace handoff_trace trusting_def
            split: option.splits)
  qed
qed

lemma run_silent:
  assumes "\<And>ddp. topology (environ w ''LOCAL_RANK'') \<noteq> Inr (ddp, 0)"
  shows "console (snd (run w)) = []"
proof (cases "prepare w initial_state")
  case (Pair r st)
  have st: "console st = []"
    using prepare_silent [of w initial_state] assms Pair by (simp add: initial_state_def)
  show ?thesis
  proof (cases r)
    case (Inl e)
    with Pair st show ?thesis by (simp add: run_prepare_fails)
  next
    case (Inr p)
    with Pair have "topology (environ w ''LOCAL_RANK'') = Inr (p_ddp p, p_rank p)"
      using prepare_Inr [of w initial_state p st] by blast
    with assms have "p_rank p \<noteq> 0" by metis
    with Pair Inr st show ?thesis
      by (simp add: run_after_prepare gated_handoff_console)
  qed
qed

subsection \<open>Runs whose collaborators answer\<close>

lemma prepare_success:
  assumes "topology (environ w ''LOCAL_RANK'') = Inr (ddp, rank)"
    and "ddp \<Longrightarrow> cuda_set_device w rank = None \<and> init_process_group w ''nccl'' = None"
    and "parse (argv w) = Inr args"
    and "from_pretrained w (model_request_of args rank (is_bf16_supported w)) = Inr m"
    and "load_dataset w (dataset_request_of args) = Inr ds"
    and "tokenizer_from_pretrained w (model args) = Inr tk"
    and "chunk_and_tokenize w ds tk (ctx_len args) = Inr toks"
    and "if ddp then shard (shard_contiguous w) (get_world_size w) rank toks = Inr ys
         else ys = toks"
  shows "prepare w st =
     (Inr \<lparr>p_ddp = ddp, p_rank = rank, p_args = args, p_model = m, p_tokenized = ys\<rparr>,
      (if ddp then call (Shard (get_world_size w) rank) else id)
        (call (ChunkAndTokenize (ctx_len args))
        (call (TokenizerFromPretrained (model args))
        (call (LoadDataset (dataset_request_of args))
        (call (FromPretrained (model_request_of args rank (is_bf16_supported w)))
        (call Parse (before_parse w ddp rank st)))))))"
proof -
  have i: "(if ddp then init_distributed w rank else ret ()) st
             = (Inr (), before_parse w ddp rank st)"
    using assms(2) by (cases ddp) (simp_all add: init_distributed_Inr ret_def before_parse_def)
  have pa: "partition w ddp rank toks s
              = (Inr ys, (if ddp then call (Shard (get_world_size w) rank) else id) s)" for s
    using assms(8) by (cases ddp) (simp_all add: partition_def external_def ret_def)
  show ?thesis
    using assms(1,3-7)
    by (simp add: prepare_def bind_def lift_def external_def ret_def i pa)
qed

lemma prepare_shard_fails:
  assumes "topology (environ w ''LOCAL_RANK'') = Inr (True, rank)"
    and "cuda_set_device w rank = None \<and> init_process_group w ''nccl'' = None"
    and "parse (argv w) = Inr args"
    and "from_pretrained w (model_request_of args rank (is_bf16_supported w)) = Inr m"
    and "load_dataset w (dataset_request_of args) = Inr ds"
    and "tokenizer_from_pretrained w (model args) = Inr tk"
    and "chunk_and_tokenize w ds tk (ctx_len args) = Inr toks"
    and "shard (shard_contiguous w) (get_world_size w) rank toks = Inl e"
  shows "prepare w st =
     (Inl e,
      call (Shard (get_world_size w) rank)
        (call (ChunkAndTokenize (ctx_len args))
        (call (TokenizerFromPretrained (model args))
        (call (LoadDataset (dataset_request_of args))
        (call (FromPretrained (model_request_of args rank (is_bf16_supported w)))
        (call Parse (before_parse w True rank st)))))))"
proof -
  have i: "init_distributed w rank st = (Inr (), before_parse w True rank st)"
    using assms(2) by (simp add: init_distributed_Inr before_parse_def)
  show ?thesis
    using assms(1,3-8)
    by (simp add: prepare_def bind_def lift_def external_def ret_def i partition_distributed)
qed

lemma prepare_parse_fails:
  assumes "topology (environ w ''LOCAL_RANK'') = Inr (ddp, rank)"
    and "ddp \<Longrightarrow> cuda_set_device w rank = None \<and> init_process_group w ''nccl'' = None"
    and "parse (argv w) = Inl e"
  shows "prepare w st = (Inl e, call Parse (before_parse w ddp rank st))"
proof -
  have i: "(if ddp then init_distributed w rank else ret ()) st
             = (Inr (), before_parse w ddp rank st)"
    using assms(2) by (cases ddp) (simp_all add: init_distributed_Inr ret_def before_parse_def)
  show ?thesis
    using assms(1,3)
    by (simp add: prepare_def bind_def lift_def external_def i)
qed

lemma before_parse_fields:
  "sys_stdout (before_parse w ddp rank st) = sys_stdout st"
  "trace (before_parse w ddp rank st)
     = trace st @ (if ddp then [SetDevice rank, InitProcessGroup ''nccl''] else [])"
  "console (before_parse w ddp rank st)
     = (if ddp \<and> rank = 0
        then (case sys_stdout st of None \<Rightarrow> console st
              | Some c \<Rightarrow> console st @ [announcement w])
        else console st)"
  by (simp_all add: before_parse_def print_console split: option.splits)

lemma empty_shard:
  assumes "N \<le> r" "r < W"
  shows "shard_indices c N W r = []"
proof (cases c)
  case True
  have "N div W = 0" "N mod W = N" using assms by simp_all
  then show ?thesis using True assms by (simp add: shard_indices_def Let_def)
next
  case False
  have "N - r + W - 1 < W" using assms by simp
  then show ?thesis using False by (simp add: shard_indices_def arange_def)
qed

text \<open>
  C2. The dtype selection depends on the 8-bit flag and on the hardware's bf16 support
  only: with the flag it is float16 whatever the hardware says; without the flag it is
  bfloat16 on hardware with bf16 support and "auto" on hardware without.
\<close>

theorem select_dtype_policy:
  "select_dtype True bf16 = Dtype Float16
   \<and> select_dtype False True = Dtype BFloat16
   \<and> select_dtype False False = Auto"
  by (simp add: select_dtype_def)

subsection \<open>The state at the gate\<close>

lemma prepared_state:
  assumes "prepare w initial_state = (Inr p, st)"
  shows "sys_stdout st = Some Console"
    and "console st = (if p_ddp p \<and> p_rank p = 0 then [announcement w] else [])"
proof -
  from prepare_Inr [OF assms] obtain s0 where
    st: "st = (if p_ddp p then call (Shard (get_world_size w) (p_rank p)) else id) s0"
    and s0: "sys_stdout s0 = Some Console"
      "console s0 = console (before_parse w (p_ddp p) (p_rank p) initial_state)"
    by (auto simp: before_parse_fields initial_state_def)
  show "sys_stdout st = Some Console" using st s0 by simp
  show "console st = (if p_ddp p \<and> p_rank p = 0 then [announcement w] else [])"
    using st s0 by (simp add: before_parse_fields initial_state_def)
qed

section \<open>The claims about \<open>run\<close>\<close>

text \<open>
  C4, as the code has it. A local-rank signal that is present goes through \<open>int\<close>: a
  value \<open>int\<close> refuses (such as "abc") raises ValueError before any collaborator is
  called, so before any model or dataset access, with nothing printed and nothing caught;
  a value \<open>int\<close> accepts becomes the rank whatever its sign.
\<close>

theorem unparseable_rank_fatal:
  "(environ w ''LOCAL_RANK'' = Some s \<and> py_int s = None \<longrightarrow>
      run w = (Inl ValueError, initial_state))
   \<and> py_int ''abc'' = None
   \<and> (environ w ''LOCAL_RANK'' = Some s \<and> py_int s = Some r \<longrightarrow>
      topology (environ w ''LOCAL_RANK'') = Inr (True, r))"
proof (intro conjI impI)
  assume "environ w ''LOCAL_RANK'' = Some s \<and> py_int s = None"
  then have "prepare w initial_state = (Inl ValueError, initial_state)"
    by (simp add: prepare_def bind_def lift_def topology_def)
  then show "run w = (Inl ValueError, initial_state)" by (rule run_prepare_fails)
next
  show "py_int ''abc'' = None" by code_simp
next
  assume "environ w ''LOCAL_RANK'' = Some s \<and> py_int s = Some r"
  then show "topology (environ w ''LOCAL_RANK'') = Inr (True, r)"
    by (simp add: topology_def)
qed

theorem unparseable_rank_fatal_witness:
  "environ (example_world (Some ''abc'') None False) ''LOCAL_RANK'' = Some ''abc''
   \<and> py_int ''abc'' = None
   \<and> run (example_world (Some ''abc'') None False)
       = (Inl ValueError, \<lparr>sys_stdout = Some Console, console = [], trace = []\<rparr>)
   \<and> environ (example_world (Some ''2'') None False) ''LOCAL_RANK'' = Some ''2''
   \<and> py_int ''2'' = Some 2
   \<and> topology (environ (example_world (Some ''2'') None False) ''LOCAL_RANK'') = Inr (True, 2)
   \<and> py_int [CHR 0xA0, CHR ''5''] = Some 5
   \<and> py_int [CHR 0x1C, CHR ''5''] = None"
proof -
  have g: "py_int [CHR 0xA0, CHR ''5''] = Some 5" by code_simp
  have h: "py_int [CHR 0x1C, CHR ''5''] = None" by code_simp
  have a: "environ (example_world (Some ''abc'') None False) ''LOCAL_RANK'' = Some ''abc''"
    by code_simp
  have b: "py_int ''abc'' = None" by code_simp
  have c: "run (example_world (Some ''abc'') None False)
       = (Inl ValueError, \<lparr>sys_stdout = Some Console, console = [], trace = []\<rparr>)"
    by code_simp
  have d: "environ (example_world (Some ''2'') None False) ''LOCAL_RANK'' = Some ''2''"
    by code_simp
  have e: "py_int ''2'' = Some 2" by code_simp
  have f: "topology (environ (example_world (Some ''2'') None False) ''LOCAL_RANK'')
             = Inr (True, 2)"
    by code_simp
  show ?thesis
    using unparseable_rank_fatal [of "example_world (Some ''abc'') None False" "''abc''" 0]
      a b c d e f g h
    by (simp only: simp_thms)
qed

text \<open>
  The signal "-1" is not a non-negative integer, and no error is raised for it at the
  parse: the rank is \<open>-1\<close>, the device is selected, the process group joined, the
  arguments parsed, the model requested on "cuda:-1" and the dataset loaded and tokenized
  before the first exception, which comes from \<open>shard\<close>.
\<close>

theorem negative_rank_accepted:
  "topology (Some ''-1'') = Inr (True, - 1)
   \<and> run (example_world (Some ''-1'') None False)
       = (Inl ValueError,
          \<lparr>sys_stdout = Some Console, console = [],
           trace = [SetDevice (- 1), InitProcessGroup ''nccl'', Parse,
                    FromPretrained (model_request_of (example_args False 2048) (- 1) True),
                    LoadDataset (dataset_request_of (example_args False 2048)),
                    TokenizerFromPretrained ''EleutherAI/pythia-160m'',
                    ChunkAndTokenize 2048, Shard 4 (- 1)]\<rparr>)
   \<and> device_map (model_request_of (example_args False 2048) (- 1) True) = ''cuda:-1''"
  by code_simp

text \<open>
  C5, as the code has it. When the run reaches the gate, the console of rank 0 holds, in
  this order, the world-size announcement (only in a distributed run), the "Training on"
  line and the "Storing model weights in" line, followed by what the trainer prints;
  other ranks' consoles hold nothing, on any path, also when the run fails. The third
  line shows \<open>model.dtype\<close> of the handle the loader returned, whatever dtype was
  requested: with the 8-bit flag float16 is requested, and the line reads torch.float16
  when the loader returns a handle of the requested dtype.
\<close>

theorem console_output_order:
  "(prepare w initial_state = (Inr p, st) \<longrightarrow>
      console (snd (run w)) =
        (if p_rank p = 0
         then (if p_ddp p then [announcement w] else [])
                @ [training_line (p_args p), storing_line (p_model p)]
                @ trainer_output w p
         else [])
      \<and> from_pretrained w (model_request_of (p_args p) (p_rank p) (is_bf16_supported w))
          = Inr (p_model p)
      \<and> storing_line (p_model p) = ''Storing model weights in '' @ dtype_str (dtype (p_model p))
      \<and> (load_in_8bit (p_args p) \<longrightarrow>
           torch_dtype (model_request_of (p_args p) (p_rank p) (is_bf16_supported w))
             = Dtype Float16)
      \<and> (load_in_8bit (p_args p)
           \<and> torch_dtype (model_request_of (p_args p) (p_rank p) (is_bf16_supported w))
               = Dtype (dtype (p_model p)) \<longrightarrow>
           storing_line (p_model p) = ''Storing model weights in torch.float16''))
   \<and> ((\<forall>ddp. topology (environ w ''LOCAL_RANK'') \<noteq> Inr (ddp, 0)) \<longrightarrow>
        console (snd (run w)) = [])"
proof (intro conjI impI)
  assume prep: "prepare w initial_state = (Inr p, st)"
  show "console (snd (run w)) =
        (if p_rank p = 0
         then (if p_ddp p then [announcement w] else [])
                @ [training_line (p_args p), storing_line (p_model p)]
                @ trainer_output w p
         else [])"
    using prepared_state [OF prep]
    by (simp add: run_after_prepare [OF prep] gated_handoff_console handoff_console)
  show "from_pretrained w (model_request_of (p_args p) (p_rank p) (is_bf16_supported w))
          = Inr (p_model p)"
    using prepare_Inr [OF prep] by blast
next
  show "storing_line (p_model p) = ''Storing model weights in '' @ dtype_str (dtype (p_model p))"
    by (simp add: storing_line_def)
next
  assume "load_in_8bit (p_args p)"
  then show "torch_dtype (model_request_of (p_args p) (p_rank p) (is_bf16_supported w))
             = Dtype Float16"
    by (simp add: model_request_of_def select_dtype_def)
next
  assume "load_in_8bit (p_args p)
           \<and> torch_dtype (model_request_of (p_args p) (p_rank p) (is_bf16_supported w))
               = Dtype (dtype (p_model p))"
  then have "dtype (p_model p) = Float16"
    by (auto simp: model_request_of_def select_dtype_def)
  then show "storing_line (p_model p) = ''Storing model weights in torch.float16''"
    by (simp add: storing_line_def dtype_str_def)
next
  assume "\<forall>ddp. topology (environ w ''LOCAL_RANK'') \<noteq> Inr (ddp, 0)"
  then show "console (snd (run w)) = []" by (simp add: run_silent)
qed

theorem console_output_order_witness:
  "prepare (example_world (Some ''0'') None True) initial_state
     = (Inr \<lparr>p_ddp = True, p_rank = 0, p_args = example_args True 2048,
             p_model = example_model Float16, p_tokenized = [[1]]\<rparr>,
        \<lparr>sys_stdout = Some Console,
         console = [''Using DDP across 4 GPUs.''],
         trace = [SetDevice 0, InitProcessGroup ''nccl'', Parse,
                  FromPretrained (model_request_of (example_args True 2048) 0 True),
                  LoadDataset (dataset_request_of (example_args True 2048)),
                  TokenizerFromPretrained ''EleutherAI/pythia-160m'',
                  ChunkAndTokenize 2048, Shard 4 0]\<rparr>)
   \<and> console (snd (run (example_world (Some ''0'') None True)))
       = [''Using DDP across 4 GPUs.'',
          training_line (example_args True 2048),
          ''Storing model weights in torch.float16'',
          ''step 1'']
   \<and> topology (environ (example_world (Some ''1'') None True) ''LOCAL_RANK'') = Inr (True, 1)
   \<and> console (snd (run (example_world (Some ''1'') None True))) = []"
proof -
  have a: "prepare (example_world (Some ''0'') None True) initial_state
     = (Inr \<lparr>p_ddp = True, p_rank = 0, p_args = example_args True 2048,
             p_model = example_model Float16, p_tokenized = [[1]]\<rparr>,
        \<lparr>sys_stdout = Some Console,
         console = [''Using DDP across 4 GPUs.''],
         trace = [SetDevice 0, InitProcessGroup ''nccl'', Parse,
                  FromPretrained (model_request_of (example_args True 2048) 0 True),
                  LoadDataset (dataset_request_of (example_args True 2048)),
                  TokenizerFromPretrained ''EleutherAI/pythia-160m'',
                  ChunkAndTokenize 2048, Shard 4 0]\<rparr>)"
    by code_simp
  have b: "console (snd (run (example_world (Some ''0'') None True)))
       = [''Using DDP across 4 GPUs.'',
          training_line (example_args True 2048),
          ''Storing model weights in torch.float16'',
          ''step 1'']"
    by code_simp
  have c: "topology (environ (example_world (Some ''1'') None True) ''LOCAL_RANK'') = Inr (True, 1)"
    by code_simp
  have d: "console (snd (run (example_world (Some ''1'') None True))) = []"
    by code_simp
  show ?thesis
    using console_output_order [of "example_world (Some ''0'') None True"] a b c d
    by (simp only: simp_thms)
qed

text \<open>
  With the 8-bit flag set and a loader that returns float32 weights, the line reads
  torch.float32.
\<close>

theorem quantized_line_follows_loader:
  "parse (argv (float32_loader (example_world (Some ''0'') None True)))
     = Inr (example_args True 2048)
   \<and> load_in_8bit (example_args True 2048)
   \<and> console (snd (run (float32_loader (example_world (Some ''0'') None True))))
       = [''Using DDP across 4 GPUs.'',
          training_line (example_args True 2048),
          ''Storing model weights in torch.float32'',
          ''step 1'']"
  by code_simp

text \<open>
  C6. At rank 0 the gate is \<open>nullcontext\<close>: the statement is its body. At any other
  rank the body runs with \<open>sys.stdout = None\<close>: the console is as it was before the
  statement, the outcome of the statement is the outcome of the body (an exception of the
  trainer's constructor or of \<open>fit\<close> leaves the statement), and \<open>sys.stdout\<close> is
  restored whether the body completed or raised. Nothing was kept back: a line printed
  after the statement is the only one added to the console.
\<close>

theorem output_gate:
  "with_context (gate 0) body st = body st
   \<and> (rank \<noteq> 0 \<longrightarrow>
        console (snd (with_context (gate rank) (handoff w p) st)) = console st
        \<and> fst (with_context (gate rank) body st) = fst (body (st\<lparr>sys_stdout := None\<rparr>))
        \<and> sys_stdout (snd (with_context (gate rank) body st)) = sys_stdout st)
   \<and> fst (with_context (gate rank) (handoff w p) st) = handoff_outcome w p
   \<and> (snd (new_trainer w (p_args p) (p_tokenized p) (p_model p)) = Some e \<longrightarrow>
        fst (with_context (gate rank) (handoff w p) st) = Inl e)
   \<and> (snd (new_trainer w (p_args p) (p_tokenized p) (p_model p)) = None
        \<and> snd (fit w (p_args p) (p_tokenized p) (p_model p)) = Some e \<longrightarrow>
        fst (with_context (gate rank) (handoff w p) st) = Inl e)
   \<and> sys_stdout (snd (with_context (gate rank) (handoff w p) st)) = sys_stdout st
   \<and> (rank \<noteq> 0 \<and> sys_stdout st = Some Console \<longrightarrow>
        console (print s (snd (with_context (gate rank) (handoff w p) st))) = console st @ [s])"
proof -
  have a: "with_context (gate 0) body st = body st"
    by (simp add: gate_def with_context_def)
  have b: "fst (with_context (gate rank) body st) = fst (body (st\<lparr>sys_stdout := None\<rparr>))"
    "sys_stdout (snd (with_context (gate rank) body st)) = sys_stdout st" if "rank \<noteq> 0"
    using that by (simp_all add: gate_def with_context_def split: prod.splits)
  have c: "fst (with_context (gate rank) (handoff w p) st) = Inl e"
    if "snd (new_trainer w (p_args p) (p_tokenized p) (p_model p)) = Some e"
    using that by (simp add: gated_handoff_fst handoff_outcome_def)
  have d: "fst (with_context (gate rank) (handoff w p) st) = Inl e"
    if "snd (new_trainer w (p_args p) (p_tokenized p) (p_model p)) = None"
      "snd (fit w (p_args p) (p_tokenized p) (p_model p)) = Some e"
    using that by (simp add: gated_handoff_fst handoff_outcome_def)
  have f: "console (print s (snd (with_context (gate rank) (handoff w p) st))) = console st @ [s]"
    if "rank \<noteq> 0" "sys_stdout st = Some Console"
    using that by (simp add: print_console gated_handoff_stdout gated_handoff_console)
  show ?thesis
    using a b c d f
    by (simp add: gated_handoff_console gated_handoff_fst gated_handoff_stdout)
qed

theorem output_gate_witness:
  "(1::int) \<noteq> 0
   \<and> sys_stdout initial_state = Some Console
   \<and> snd (new_trainer (failing_fit (example_world (Some ''1'') None False))
        (p_args (example_prepared 1)) (p_tokenized (example_prepared 1))
        (p_model (example_prepared 1))) = None
   \<and> snd (fit (failing_fit (example_world (Some ''1'') None False))
        (p_args (example_prepared 1)) (p_tokenized (example_prepared 1))
        (p_model (example_prepared 1))) = Some (Raised ''OutOfMemoryError'')
   \<and> with_context (gate 1)
        (handoff (failing_fit (example_world (Some ''1'') None False)) (example_prepared 1))
        initial_state
      = (Inl (Raised ''OutOfMemoryError''),
         \<lparr>sys_stdout = Some Console, console = [],
          trace = [NewSaeTrainer (example_args False 2048) [[2]] (example_model BFloat16), Fit]\<rparr>)
   \<and> console (snd (with_context (gate 0)
        (handoff (failing_fit (example_world (Some ''0'') None False)) (example_prepared 0))
        initial_state))
      = [training_line (example_args False 2048), ''Storing model weights in torch.bfloat16'',
         ''step 1'']"
proof -
  have a: "sys_stdout initial_state = Some Console" by code_simp
  have b: "snd (new_trainer (failing_fit (example_world (Some ''1'') None False))
        (p_args (example_prepared 1)) (p_tokenized (example_prepared 1))
        (p_model (example_prepared 1))) = None"
    by code_simp
  have c: "snd (fit (failing_fit (example_world (Some ''1'') None False))
        (p_args (example_prepared 1)) (p_tokenized (example_prepared 1))
        (p_model (example_prepared 1))) = Some (Raised ''OutOfMemoryError'')"
    by code_simp
  have d: "with_context (gate 1)
        (handoff (failing_fit (example_world (Some ''1'') None False)) (example_prepared 1))
        initial_state
      = (Inl (Raised ''OutOfMemoryError''),
         \<lparr>sys_stdout = Some Console, console = [],
          trace = [NewSaeTrainer (example_args False 2048) [[2]] (example_model BFloat16), Fit]\<rparr>)"
    by code_simp
  have e: "console (snd (with_context (gate 0)
        (handoff (failing_fit (example_world (Some ''0'') None False)) (example_prepared 0))
        initial_state))
      = [training_line (example_args False 2048), ''Storing model weights in torch.bfloat16'',
         ''step 1'']"
    by code_simp
  have n: "(1::int) \<noteq> 0" by simp
  show ?thesis
    using output_gate [of "handoff (failing_fit (example_world (Some ''1'') None False))
        (example_prepared 1)" initial_state 1
        "failing_fit (example_world (Some ''1'') None False)" "example_prepared 1"
        "Raised ''OutOfMemoryError''" "''later''"] a b c d e n
    by (simp only: simp_thms)
qed

text \<open>
  C7, as the code has it. A supplied \<open>ctx_len\<close> that \<open>int\<close> refuses ends the parse
  with the parser's exit and no configuration; one that \<open>int\<close> accepts becomes the
  field's value whatever its sign, there being no range check. When the parse fails,
  \<open>run\<close> ends with that error and the parse is the last call it made.
\<close>

theorem resolver_validation:
  "(arg_base a = Inr b \<and> arg_ctx_len a = Some v \<and> py_int v = None \<longrightarrow>
      parse a = Inl (SystemExit 2))
   \<and> (arg_base a = Inr b \<and> arg_ctx_len a = Some v \<and> py_int v = Some n \<longrightarrow>
      (\<exists>cfg. parse a = Inr cfg \<and> ctx_len cfg = n))
   \<and> (topology (environ w ''LOCAL_RANK'') = Inr (ddp, rank)
      \<and> (ddp \<longrightarrow> cuda_set_device w rank = None \<and> init_process_group w ''nccl'' = None)
      \<and> parse (argv w) = Inl e \<longrightarrow>
      fst (run w) = Inl e
      \<and> trace (snd (run w))
          = (if ddp then [SetDevice rank, InitProcessGroup ''nccl''] else []) @ [Parse])"
proof (intro conjI impI)
  assume "arg_base a = Inr b \<and> arg_ctx_len a = Some v \<and> py_int v = None"
  then show "parse a = Inl (SystemExit 2)" by (simp add: parse_def)
next
  assume "arg_base a = Inr b \<and> arg_ctx_len a = Some v \<and> py_int v = Some n"
  then show "\<exists>cfg. parse a = Inr cfg \<and> ctx_len cfg = n" by (simp add: parse_def)
next
  assume h: "topology (environ w ''LOCAL_RANK'') = Inr (ddp, rank)
      \<and> (ddp \<longrightarrow> cuda_set_device w rank = None \<and> init_process_group w ''nccl'' = None)
      \<and> parse (argv w) = Inl e"
  then have p: "prepare w initial_state
                  = (Inl e, call Parse (before_parse w ddp rank initial_state))"
    by (intro prepare_parse_fails) simp_all
  show "fst (run w) = Inl e" by (simp add: run_prepare_fails [OF p])
  show "trace (snd (run w))
          = (if ddp then [SetDevice rank, InitProcessGroup ''nccl''] else []) @ [Parse]"
    by (simp add: run_prepare_fails [OF p] before_parse_fields initial_state_def)
qed

theorem resolver_validation_witness:
  "arg_base (argv (example_world None (Some ''2k'') False))
     = Inr \<lparr>load_in_8bit = False, hf_token = None\<rparr>
   \<and> arg_ctx_len (argv (example_world None (Some ''2k'') False)) = Some ''2k''
   \<and> py_int ''2k'' = None
   \<and> parse (argv (example_world None (Some ''2k'') False)) = Inl (SystemExit 2)
   \<and> topology (environ (example_world None (Some ''2k'') False) ''LOCAL_RANK'') = Inr (False, 0)
   \<and> run (example_world None (Some ''2k'') False)
       = (Inl (SystemExit 2), \<lparr>sys_stdout = Some Console, console = [], trace = [Parse]\<rparr>)
   \<and> arg_ctx_len (argv (example_world None (Some ''-5'') False)) = Some ''-5''
   \<and> py_int ''-5'' = Some (- 5)
   \<and> parse (argv (example_world None (Some ''-5'') False)) = Inr (example_args False (- 5))"
proof -
  have a: "arg_base (argv (example_world None (Some ''2k'') False))
     = Inr \<lparr>load_in_8bit = False, hf_token = None\<rparr>" by code_simp
  have b: "arg_ctx_len (argv (example_world None (Some ''2k'') False)) = Some ''2k''"
    by code_simp
  have c: "py_int ''2k'' = None" by code_simp
  have d: "parse (argv (example_world None (Some ''2k'') False)) = Inl (SystemExit 2)"
    by code_simp
  have e: "topology (environ (example_world None (Some ''2k'') False) ''LOCAL_RANK'')
             = Inr (False, 0)" by code_simp
  have f: "run (example_world None (Some ''2k'') False)
       = (Inl (SystemExit 2), \<lparr>sys_stdout = Some Console, console = [], trace = [Parse]\<rparr>)"
    by code_simp
  have g: "arg_ctx_len (argv (example_world None (Some ''-5'') False)) = Some ''-5''"
    by code_simp
  have h: "py_int ''-5'' = Some (- 5)" by code_simp
  have i: "parse (argv (example_world None (Some ''-5'') False)) = Inr (example_args False (- 5))"
    by code_simp
  show ?thesis
    using resolver_validation [of "argv (example_world None (Some ''2k'') False)"
        "\<lparr>load_in_8bit = False, hf_token = None\<rparr>" "''2k''" 0
        "example_world None (Some ''2k'') False" False 0 "SystemExit 2"]
      a b c d e f g h i
    by (simp only: simp_thms)
qed

text \<open>
  The texts "0" and "-5" are resolved to \<open>ctx_len = 0\<close> and \<open>ctx_len = -5\<close>; with "0"
  the run goes on to call the tokenizer with \<open>max_seq_len = 0\<close> and ends normally.
\<close>

theorem nonpositive_ctx_len_accepted:
  "parse (argv (example_world None (Some ''0'') False)) = Inr (example_args False 0)
   \<and> parse (argv (example_world None (Some ''-5'') False)) = Inr (example_args False (- 5))
   \<and> fst (run (example_world None (Some ''0'') False)) = Inr ()
   \<and> ChunkAndTokenize 0 \<in> set (trace (snd (run (example_world None (Some ''0'') False))))"
  by code_simp

text \<open>
  C8, as the code has it. The request \<open>run\<close> makes of \<open>load_dataset\<close> carries
  \<open>trust_remote_code = True\<close> for every configuration, and every dataset load of every
  run is made with it.
\<close>

theorem trust_remote_code_fixed:
  "dataset_request_of args
     = \<lparr>path = dataset args, split_name = split args, trust_remote_code = True\<rparr>
   \<and> list_all trusting (trace (snd (run w)))"
  by (simp add: dataset_request_of_def run_trusting)

text \<open>No two configurations differ in the permission requested.\<close>

theorem trust_remote_code_not_configurable:
  "\<not> (\<exists>a b. trust_remote_code (dataset_request_of a)
              \<noteq> trust_remote_code (dataset_request_of b))"
  by (simp add: dataset_request_of_def)

text \<open>
  C10, as the code has it. In a distributed run whose world size exceeds the size of the
  tokenized dataset, with a rank inside the world and the collaborators answering: with
  striping \<open>shard\<close> raises nothing, a rank at or beyond the dataset size obtains the
  empty shard and, the trainer's constructor returning, the trainer is constructed on
  that shard and \<open>fit\<close> is called exactly once, as the last call of the run; with the
  contiguous split \<open>shard\<close> raises IndexError for a rank at or beyond the size of a
  non-empty dataset, and the run ends there, its last call the one to \<open>shard\<close>.
\<close>

theorem world_larger_than_dataset:
  assumes "topology (environ w ''LOCAL_RANK'') = Inr (True, rank)"
    and "cuda_set_device w rank = None" and "init_process_group w ''nccl'' = None"
    and "parse (argv w) = Inr args"
    and "from_pretrained w (model_request_of args rank (is_bf16_supported w)) = Inr m"
    and "load_dataset w (dataset_request_of args) = Inr ds"
    and "tokenizer_from_pretrained w (model args) = Inr tk"
    and "chunk_and_tokenize w ds tk (ctx_len args) = Inr toks"
    and "length toks < get_world_size w"
    and "0 \<le> rank" and "rank < int (get_world_size w)"
    and "\<And>ys. snd (new_trainer w args ys m) = None"
  shows "(\<not> shard_contiguous w \<longrightarrow>
           (\<exists>ys. shard (shard_contiguous w) (get_world_size w) rank toks = Inr ys
              \<and> (int (length toks) \<le> rank \<longrightarrow> ys = [])
              \<and> trace (snd (run w)) =
                  [SetDevice rank, InitProcessGroup ''nccl'', Parse,
                   FromPretrained (model_request_of args rank (is_bf16_supported w)),
                   LoadDataset (dataset_request_of args),
                   TokenizerFromPretrained (model args),
                   ChunkAndTokenize (ctx_len args),
                   Shard (get_world_size w) rank,
                   NewSaeTrainer args ys m,
                   Fit]
              \<and> count_list (trace (snd (run w))) Fit = 1))
       \<and> (shard_contiguous w \<and> toks \<noteq> [] \<and> int (length toks) \<le> rank \<longrightarrow>
           shard (shard_contiguous w) (get_world_size w) rank toks = Inl IndexError
           \<and> fst (run w) = Inl IndexError
           \<and> trace (snd (run w)) =
               [SetDevice rank, InitProcessGroup ''nccl'', Parse,
                FromPretrained (model_request_of args rank (is_bf16_supported w)),
                LoadDataset (dataset_request_of args),
                TokenizerFromPretrained (model args),
                ChunkAndTokenize (ctx_len args),
                Shard (get_world_size w) rank])"
proof (intro conjI impI)
  assume striped: "\<not> shard_contiguous w"
  define ys where
    "ys = map (\<lambda>i. toks ! i)
            (shard_indices False (length toks) (get_world_size w) (nat rank))"
  have r: "nat rank < get_world_size w" "int (nat rank) = rank" using assms(10,11) by simp_all
  have sh: "shard (shard_contiguous w) (get_world_size w) rank toks = Inr ys"
    using shard_striped [OF r(1), of toks] striped r(2) by (simp add: ys_def)
  have emp: "ys = []" if "int (length toks) \<le> rank"
  proof -
    have "length toks \<le> nat rank" using that assms(10) by simp
    then show ?thesis using r(1) by (simp add: ys_def empty_shard)
  qed
  have prep: "prepare w initial_state =
     (Inr \<lparr>p_ddp = True, p_rank = rank, p_args = args, p_model = m, p_tokenized = ys\<rparr>,
      call (Shard (get_world_size w) rank)
        (call (ChunkAndTokenize (ctx_len args))
        (call (TokenizerFromPretrained (model args))
        (call (LoadDataset (dataset_request_of args))
        (call (FromPretrained (model_request_of args rank (is_bf16_supported w)))
        (call Parse (before_parse w True rank initial_state)))))))"
    using prepare_success [of w True rank args m ds tk toks ys initial_state] assms(1-8) sh
    by simp
  have tr: "trace (snd (run w)) =
               [SetDevice rank, InitProcessGroup ''nccl'', Parse,
                FromPretrained (model_request_of args rank (is_bf16_supported w)),
                LoadDataset (dataset_request_of args),
                TokenizerFromPretrained (model args),
                ChunkAndTokenize (ctx_len args),
                Shard (get_world_size w) rank,
                NewSaeTrainer args ys m,
                Fit]"
    using assms(12) [of ys]
    by (simp add: run_after_prepare [OF prep] gated_handoff_trace handoff_trace
          before_parse_fields initial_state_def)
  have "count_list (trace (snd (run w))) Fit = 1" by (simp add: tr)
  with sh emp tr
  show "\<exists>ys. shard (shard_contiguous w) (get_world_size w) rank toks = Inr ys
              \<and> (int (length toks) \<le> rank \<longrightarrow> ys = [])
              \<and> trace (snd (run w)) =
                  [SetDevice rank, InitProcessGroup ''nccl'', Parse,
                   FromPretrained (model_request_of args rank (is_bf16_supported w)),
                   LoadDataset (dataset_request_of args),
                   TokenizerFromPretrained (model args),
                   ChunkAndTokenize (ctx_len args),
                   Shard (get_world_size w) rank,
                   NewSaeTrainer args ys m,
                   Fit]
              \<and> count_list (trace (snd (run w))) Fit = 1"
    by blast
next
  assume h: "shard_contiguous w \<and> toks \<noteq> [] \<and> int (length toks) \<le> rank"
  have r: "nat rank < get_world_size w" "int (nat rank) = rank" "length toks \<le> nat rank"
    using assms(10,11) h by linarith+
  show sh: "shard (shard_contiguous w) (get_world_size w) rank toks = Inl IndexError"
    using shard_contiguous_beyond [of toks "nat rank" "get_world_size w"] h r by simp
  have prep: "prepare w initial_state =
     (Inl IndexError,
      call (Shard (get_world_size w) rank)
        (call (ChunkAndTokenize (ctx_len args))
        (call (TokenizerFromPretrained (model args))
        (call (LoadDataset (dataset_request_of args))
        (call (FromPretrained (model_request_of args rank (is_bf16_supported w)))
        (call Parse (before_parse w True rank initial_state)))))))"
    using assms(1-8) sh by (intro prepare_shard_fails) simp_all
  show "fst (run w) = Inl IndexError" by (simp add: run_prepare_fails [OF prep])
  show "trace (snd (run w)) =
               [SetDevice rank, InitProcessGroup ''nccl'', Parse,
                FromPretrained (model_request_of args rank (is_bf16_supported w)),
                LoadDataset (dataset_request_of args),
                TokenizerFromPretrained (model args),
                ChunkAndTokenize (ctx_len args),
                Shard (get_world_size w) rank]"
    by (simp add: run_prepare_fails [OF prep] before_parse_fields initial_state_def)
qed

theorem world_larger_than_dataset_witness:
  "topology (environ (example_world (Some ''3'') None False) ''LOCAL_RANK'') = Inr (True, 3)
   \<and> length [[1], [2], [3 :: nat]] < get_world_size (example_world (Some ''3'') None False)
   \<and> \<not> shard_contiguous (example_world (Some ''3'') None False)
   \<and> shard False 4 3 [[1], [2], [3 :: nat]] = Inr []
   \<and> run (example_world (Some ''3'') None False)
       = (Inr (),
          \<lparr>sys_stdout = Some Console, console = [],
           trace = [SetDevice 3, InitProcessGroup ''nccl'', Parse,
                    FromPretrained (model_request_of (example_args False 2048) 3 True),
                    LoadDataset (dataset_request_of (example_args False 2048)),
                    TokenizerFromPretrained ''EleutherAI/pythia-160m'',
                    ChunkAndTokenize 2048, Shard 4 3,
                    NewSaeTrainer (example_args False 2048) [] (example_model BFloat16),
                    Fit]\<rparr>)"
proof -
  let ?w = "example_world (Some ''3'') None False"
  have h1: "topology (environ ?w ''LOCAL_RANK'') = Inr (True, 3)" by code_simp
  have h2: "cuda_set_device ?w 3 = None" by code_simp
  have h3: "init_process_group ?w ''nccl'' = None" by code_simp
  have h4: "parse (argv ?w) = Inr (example_args False 2048)" by code_simp
  have h5: "from_pretrained ?w (model_request_of (example_args False 2048) 3 (is_bf16_supported ?w))
              = Inr (example_model BFloat16)" by code_simp
  have h6: "load_dataset ?w (dataset_request_of (example_args False 2048))
              = Inr [''a'', ''bc'', ''def'']" by code_simp
  have h7: "tokenizer_from_pretrained ?w (model (example_args False 2048))
              = Inr (Tokenizer ''EleutherAI/pythia-160m'')" by code_simp
  have h8: "chunk_and_tokenize ?w [''a'', ''bc'', ''def''] (Tokenizer ''EleutherAI/pythia-160m'')
              (ctx_len (example_args False 2048)) = Inr [[1], [2], [3]]" by code_simp
  have h9: "length [[1], [2], [3 :: nat]] < get_world_size ?w" by code_simp
  have h10: "(0::int) \<le> 3" by simp
  have h11: "(3::int) < int (get_world_size ?w)" by code_simp
  have h12: "snd (new_trainer ?w (example_args False 2048) ys (example_model BFloat16)) = None"
    for ys by (simp add: example_world_def)
  have c: "\<not> shard_contiguous ?w" by code_simp
  have s: "shard False 4 3 [[1], [2], [3 :: nat]] = Inr []" by code_simp
  have r: "run ?w
       = (Inr (),
          \<lparr>sys_stdout = Some Console, console = [],
           trace = [SetDevice 3, InitProcessGroup ''nccl'', Parse,
                    FromPretrained (model_request_of (example_args False 2048) 3 True),
                    LoadDataset (dataset_request_of (example_args False 2048)),
                    TokenizerFromPretrained ''EleutherAI/pythia-160m'',
                    ChunkAndTokenize 2048, Shard 4 3,
                    NewSaeTrainer (example_args False 2048) [] (example_model BFloat16),
                    Fit]\<rparr>)"
    by code_simp
  show ?thesis
    using world_larger_than_dataset [OF h1 h2 h3 h4 h5 h6 h7 h8 h9 h10 h11 h12] h1 h9 c s r
    by (simp only: simp_thms)
qed

text \<open>
  Three sequences, four ranks, the contiguous split: rank 3 ends with IndexError before
  any trainer is constructed.
\<close>

theorem contiguous_shard_beyond_dataset:
  "length [[1], [2], [3 :: nat]]
     < get_world_size (contiguous_shards (example_world (Some ''3'') None False))
   \<and> shard True 4 3 [[1], [2], [3 :: nat]] = Inl IndexError
   \<and> run (contiguous_shards (example_world (Some ''3'') None False))
       = (Inl IndexError,
          \<lparr>sys_stdout = Some Console, console = [],
           trace = [SetDevice 3, InitProcessGroup ''nccl'', Parse,
                    FromPretrained (model_request_of (example_args False 2048) 3 True),
                    LoadDataset (dataset_request_of (example_args False 2048)),
                    TokenizerFromPretrained ''EleutherAI/pythia-160m'',
                    ChunkAndTokenize 2048, Shard 4 3]\<rparr>)"
  by code_simp

end
